theory Spec2Isabelle
  imports Main "HOL-Library.Sublist" "HOL-Library.AList"
begin

section \<open>Python values shared by the three source files\<close>

text \<open>
  The three files are \<^verbatim>\<open>model_archiver/model_packaging_utils.py\<close> (the archive builder),
  \<^verbatim>\<open>ts/model_loader.py\<close> (the handler resolver) and \<^verbatim>\<open>ts/model_service_worker.py\<close>
  (the worker). Byte strings and text strings are both \<open>char list\<close>. Every exception the
  code can raise is a value of \<open>pyerror\<close>; a function that can raise returns
  \<open>pyerror + 'a\<close> with \<open>Inl\<close> for the exception.
\<close>

type_synonym bytes = string

datatype pyerror =
    ModelArchiverError string
  | ValueError string
  | KeyError string
  | TypeError string
  | NameError string
  | AttributeError string
  | IndexError string
  | IsADirectoryError string
  | NotADirectoryError string
  | RuntimeError string
  | ImportError string
  | FileNotFoundError string
  | FileExistsError string
  | MemoryError
  | ConnectionError
  | SocketTimeout
  | OtherError string

section \<open>Strings and POSIX paths\<close>

text \<open>\<^verbatim>\<open>os.path.join(a, b)\<close> of \<^verbatim>\<open>posixpath\<close>: an absolute \<open>b\<close> replaces \<open>a\<close>; an
  empty \<open>a\<close>, or one that ends with the separator, gets no separator added.\<close>

definition os_path_join :: "string \<Rightarrow> string \<Rightarrow> string" where
  "os_path_join a b =
     (if prefix ''/'' b then b
      else if a = [] \<or> suffix ''/'' a then a @ b
      else a @ ''/'' @ b)"

text \<open>\<^verbatim>\<open>s.split(c, 1)\<close>: the part before the first \<open>c\<close>, and the rest after it when
  there is one.\<close>

definition split_once :: "char \<Rightarrow> string \<Rightarrow> string \<times> string option" where
  "split_once c s =
     (takeWhile (\<lambda>x. x \<noteq> c) s,
      if c \<in> set s then Some (tl (dropWhile (\<lambda>x. x \<noteq> c) s)) else None)"

text \<open>\<^verbatim>\<open>s.split(c)\<close>: never empty, one more part than there are separators.\<close>

fun split_on :: "char \<Rightarrow> string \<Rightarrow> string list" where
  "split_on c [] = [[]]"
| "split_on c (x # xs) =
     (if x = c then [] # split_on c xs
      else (case split_on c xs of
              [] \<Rightarrow> [[x]]
            | w # ws \<Rightarrow> (x # w) # ws))"

text \<open>\<^verbatim>\<open>"{}".format(v)\<close> for a value that is a string or \<^verbatim>\<open>None\<close>.\<close>

definition format_value :: "string option \<Rightarrow> string" where
  "format_value v = (case v of None \<Rightarrow> ''None'' | Some s \<Rightarrow> s)"

section \<open>The file system\<close>

text \<open>The file system is a finite table from paths to nodes, each path listed once.
  Paths are compared as written (no normalisation of \<^verbatim>\<open>..\<close> or doubled slashes).\<close>

datatype node = File bytes | Dir

type_synonym filesystem = "(string \<times> node) list"

definition os_path_exists :: "filesystem \<Rightarrow> string \<Rightarrow> bool" where
  "os_path_exists fs p = (map_of fs p \<noteq> None)"

definition os_path_isfile :: "filesystem \<Rightarrow> string \<Rightarrow> bool" where
  "os_path_isfile fs p = (case map_of fs p of Some (File _) \<Rightarrow> True | _ \<Rightarrow> False)"

definition os_path_isdir :: "filesystem \<Rightarrow> string \<Rightarrow> bool" where
  "os_path_isdir fs p = (map_of fs p = Some Dir)"

text \<open>\<^verbatim>\<open>open(p, 'rb').read()\<close>.\<close>

definition read_file :: "filesystem \<Rightarrow> string \<Rightarrow> pyerror + bytes" where
  "read_file fs p =
     (case map_of fs p of
        None \<Rightarrow> Inl (FileNotFoundError p)
      | Some Dir \<Rightarrow> Inl (IsADirectoryError p)
      | Some (File b) \<Rightarrow> Inr b)"

text \<open>\<^verbatim>\<open>os.path.basename\<close> and \<^verbatim>\<open>os.path.dirname\<close> of \<^verbatim>\<open>posixpath\<close>.\<close>

definition os_path_basename :: "string \<Rightarrow> string" where
  "os_path_basename p = rev (takeWhile (\<lambda>c. c \<noteq> CHR ''/'') (rev p))"

definition os_path_dirname :: "string \<Rightarrow> string" where
  "os_path_dirname p =
     (let head = take (length p - length (os_path_basename p)) p
      in if head \<noteq> [] \<and> \<not> list_all (\<lambda>c. c = CHR ''/'') head
         then rev (dropWhile (\<lambda>c. c = CHR ''/'') (rev head))
         else head)"

text \<open>The current directory (the empty path) and the root are always directories.\<close>

definition is_directory :: "filesystem \<Rightarrow> string \<Rightarrow> bool" where
  "is_directory fs p = (list_all (\<lambda>c. c = CHR ''/'') p \<or> os_path_isdir fs p)"

text \<open>The proper ancestors of a path, outermost first: \<^verbatim>\<open>/a\<close> and \<^verbatim>\<open>/a/b\<close> for
  \<^verbatim>\<open>/a/b/c\<close>.\<close>

definition ancestors :: "string \<Rightarrow> string list" where
  "ancestors p =
     filter (\<lambda>q. \<not> list_all (\<lambda>c. c = CHR ''/'') q)
       (map (\<lambda>i. take i p) (filter (\<lambda>i. p ! i = CHR ''/'') [0..<length p]))"

text \<open>\<^verbatim>\<open>os.makedirs(p)\<close>: fails when \<open>p\<close> exists or an ancestor is a file; creates the
  missing ancestors and \<open>p\<close>.\<close>

definition os_makedirs :: "filesystem \<Rightarrow> string \<Rightarrow> pyerror + filesystem" where
  "os_makedirs fs p =
     (if os_path_exists fs p then Inl (FileExistsError p)
      else if list_ex (os_path_isfile fs) (ancestors p) then Inl (NotADirectoryError p)
      else Inr (fs @ map (\<lambda>q. (q, Dir))
                  (filter (\<lambda>q. \<not> os_path_exists fs q) (remdups (ancestors p @ [p])))))"

text \<open>Writing a file (\<^verbatim>\<open>open(p, 'wb')\<close> and \<^verbatim>\<open>write\<close>): the parent must be a directory.\<close>

definition write_file :: "filesystem \<Rightarrow> string \<Rightarrow> bytes \<Rightarrow> pyerror + filesystem" where
  "write_file fs p b =
     (if os_path_isdir fs p then Inl (IsADirectoryError p)
      else if \<not> is_directory fs (os_path_dirname p) then Inl (FileNotFoundError p)
      else Inr (AList.update p (File b) fs))"

text \<open>\<^verbatim>\<open>shutil.copy(src, dst)\<close> and \<^verbatim>\<open>shutil.copy2\<close> (metadata is not modelled): into
  \<open>dst\<close> when it is a directory, onto \<open>dst\<close> otherwise.\<close>

definition shutil_copy :: "filesystem \<Rightarrow> string \<Rightarrow> string \<Rightarrow> pyerror + filesystem" where
  "shutil_copy fs src dst =
     (let target = (if os_path_isdir fs dst then os_path_join dst (os_path_basename src)
                    else dst)
      in case read_file fs src of
           Inl e \<Rightarrow> Inl e
         | Inr b \<Rightarrow>
             if target = src then Inl (OtherError ''SameFileError'')
             else write_file fs target b)"

text \<open>Whether \<open>q\<close> lies below the directory \<open>p\<close>.\<close>

definition below :: "string \<Rightarrow> string \<Rightarrow> bool" where
  "below p q = (prefix (p @ ''/'') q \<and> length (p @ ''/'') < length q)"

text \<open>\<^verbatim>\<open>shutil.rmtree(p)\<close>.\<close>

definition shutil_rmtree :: "filesystem \<Rightarrow> string \<Rightarrow> pyerror + filesystem" where
  "shutil_rmtree fs p =
     (case map_of fs p of
        None \<Rightarrow> Inl (FileNotFoundError p)
      | Some (File _) \<Rightarrow> Inl (NotADirectoryError p)
      | Some Dir \<Rightarrow> Inr (filter (\<lambda>e. fst e \<noteq> p \<and> \<not> below p (fst e)) fs))"

text \<open>\<^verbatim>\<open>os.listdir(p)\<close>: the names directly below \<open>p\<close>, in table order.\<close>

definition os_listdir :: "filesystem \<Rightarrow> string \<Rightarrow> pyerror + string list" where
  "os_listdir fs p =
     (case map_of fs p of
        None \<Rightarrow> Inl (FileNotFoundError p)
      | Some (File _) \<Rightarrow> Inl (NotADirectoryError p)
      | Some Dir \<Rightarrow>
          Inr (filter (\<lambda>name. CHR ''/'' \<notin> set name)
                 (map (\<lambda>e. drop (length p + 1) (fst e)) (filter (\<lambda>e. below p (fst e)) fs))))"

text \<open>\<^verbatim>\<open>shutil.copytree(src, dst, False, None)\<close>: \<open>dst\<close> must not exist; it is created
  with its ancestors and receives a copy of everything below \<open>src\<close>.\<close>

definition shutil_copytree :: "filesystem \<Rightarrow> string \<Rightarrow> string \<Rightarrow> pyerror + filesystem" where
  "shutil_copytree fs src dst =
     (case os_listdir fs src of
        Inl e \<Rightarrow> Inl e
      | Inr _ \<Rightarrow>
          (case os_makedirs fs dst of
             Inl e \<Rightarrow> Inl e
           | Inr fs' \<Rightarrow>
               Inr (fs' @ map (\<lambda>e. (dst @ drop (length src) (fst e), snd e))
                           (filter (\<lambda>e. below src (fst e)) fs))))"

section \<open>The archive builder: export paths and model names\<close>

definition archiving_options :: "(string \<times> string) list" where
  "archiving_options = [(''tgz'', ''.tar.gz''), (''no-archive'', ''''), (''default'', ''.mar'')]"

text \<open>\<^verbatim>\<open>archiving_options.get(archive_format)\<close> is \<^verbatim>\<open>None\<close> for a tag that is not a key,
  and \<^verbatim>\<open>format\<close> prints it as the text \<^verbatim>\<open>None\<close>.\<close>

definition get_archive_export_path :: "string \<Rightarrow> string \<Rightarrow> string \<Rightarrow> string" where
  "get_archive_export_path export_file_path model_name archive_format =
     os_path_join export_file_path
       (model_name @ format_value (map_of archiving_options archive_format))"

definition is_alnum :: "char \<Rightarrow> bool" where
  "is_alnum c \<longleftrightarrow>
     c \<in> set ''ABCDEFGHIJKLMNOPQRSTUVWXYZabcdefghijklmnopqrstuvwxyz0123456789''"

definition is_name_char :: "char \<Rightarrow> bool" where
  "is_name_char c \<longleftrightarrow> is_alnum c \<or> c = CHR ''_'' \<or> c = CHR ''-'' \<or> c = CHR ''.''"

text \<open>\<^verbatim>\<open>re.match(r"^[A-Za-z0-9][A-Za-z0-9_\-.]*$", model_name)\<close>. Without the multi-line flag
  Python's \<^verbatim>\<open>$\<close> matches at the end of the string and also just before a newline that
  ends the string.\<close>

definition model_name_matches :: "string \<Rightarrow> bool" where
  "model_name_matches model_name =
     (case model_name of
        [] \<Rightarrow> False
      | c # cs \<Rightarrow>
          is_alnum c \<and>
          (list_all is_name_char cs \<or>
           (cs \<noteq> [] \<and> last cs = CHR 0x0A \<and> list_all is_name_char (butlast cs))))"

definition check_model_name_regex_or_exit :: "string \<Rightarrow> pyerror + unit" where
  "check_model_name_regex_or_exit model_name =
     (if \<not> model_name_matches model_name
      then Inl (ModelArchiverError ''Model name contains special characters.'')
      else Inr ())"

subsection \<open>Staging the artifacts\<close>

definition model_handlers :: "(string \<times> string) list" where
  "model_handlers =
     [(''base_handler'', ''anything''), (''text_classifier'', ''text''),
      (''image_classifier'', ''vision''), (''object_detector'', ''vision''),
      (''image_segmenter'', ''vision'')]"

definition MANIFEST_FILE_NAME :: string where
  "MANIFEST_FILE_NAME = ''MANIFEST.json''"

definition MAR_INF :: string where
  "MAR_INF = ''MAR-INF''"

text \<open>A step that changes state returns its result and the state it leaves, also when
  it raises: what was written before an exception stays written.\<close>

type_synonym ('a, 's) result = "(pyerror + 'a) \<times> 's"

type_synonym 'a fs_result = "('a, filesystem) result"

definition atomic :: "filesystem \<Rightarrow> pyerror + filesystem \<Rightarrow> unit fs_result" where
  "atomic fs r = (case r of Inl e \<Rightarrow> (Inl e, fs) | Inr fs' \<Rightarrow> (Inr (), fs'))"

text \<open>A \<^verbatim>\<open>for\<close> loop over a list whose body may raise.\<close>

fun for_each :: "('a \<Rightarrow> 's \<Rightarrow> (unit, 's) result) \<Rightarrow> 'a list \<Rightarrow> 's \<Rightarrow> (unit, 's) result" where
  "for_each body [] st = (Inr (), st)"
| "for_each body (x # xs) st =
     (case body x st of
        (Inl e, st') \<Rightarrow> (Inl e, st')
      | (Inr _, st') \<Rightarrow> for_each body xs st')"

definition make_dir :: "string \<Rightarrow> filesystem \<Rightarrow> unit fs_result" where
  "make_dir d fs = (if \<not> os_path_isdir fs d then atomic fs (os_makedirs fs d) else (Inr (), fs))"

text \<open>Lines 173 to 179: one entry of an extra directory, merged into the staging root.\<close>

definition copy_extra_item :: "string \<Rightarrow> string \<Rightarrow> string \<Rightarrow> filesystem \<Rightarrow> unit fs_result" where
  "copy_extra_item model_path file item fs =
     (let src = os_path_join file item; dst = os_path_join model_path item
      in if os_path_isfile fs src then atomic fs (shutil_copy fs src dst)
         else if os_path_isdir fs src then atomic fs (shutil_copytree fs src dst)
         else (Inr (), fs))"

text \<open>Lines 169 to 181: one path of the \<^verbatim>\<open>extra_files\<close> list.\<close>

definition copy_extra_file :: "string \<Rightarrow> string \<Rightarrow> string \<Rightarrow> filesystem \<Rightarrow> unit fs_result" where
  "copy_extra_file model_path encrypted_path file fs =
     (if os_path_isfile fs file then atomic fs (shutil_copy fs file model_path)
      else if os_path_isdir fs file \<and> file \<noteq> model_path \<and> file \<noteq> encrypted_path then
        (case os_listdir fs file of
           Inl e \<Rightarrow> (Inl e, fs)
         | Inr items \<Rightarrow> for_each (copy_extra_item model_path file) items fs)
      else (Inl (ValueError (''Invalid extra file given '' @ file)), fs))"

text \<open>Lines 184 to 197: one path of the \<^verbatim>\<open>encrypted_files\<close> list. The condition of the
  \<^verbatim>\<open>elif\<close> reads the name \<^verbatim>\<open>encrpyted_path\<close>, which is bound nowhere: Python evaluates
  the conjunction from the left, so a directory other than \<^verbatim>\<open>model_path\<close> reaches the
  name and raises \<^verbatim>\<open>NameError\<close>, and everything else falls to the \<^verbatim>\<open>else\<close>. The body of
  the \<^verbatim>\<open>elif\<close> (lines 189 to 195) is never run.\<close>

definition copy_encrypted_file ::
  "string \<Rightarrow> string \<Rightarrow> string \<Rightarrow> filesystem \<Rightarrow> unit fs_result" where
  "copy_encrypted_file model_path encrypted_path file fs =
     (if os_path_isfile fs file then atomic fs (shutil_copy fs file encrypted_path)
      else if os_path_isdir fs file \<and> file \<noteq> model_path then
        (Inl (NameError ''encrpyted_path''), fs)
      else (Inl (ValueError (''Invalid extra file given '' @ file)), fs))"

text \<open>Lines 161 to 166: the handler path; \<open>None\<close> stands for \<^verbatim>\<open>continue\<close>.\<close>

definition handler_source_path :: "string \<Rightarrow> string option" where
  "handler_source_path path =
     (if path \<in> set (map fst model_handlers) then None
      else if \<not> sublist ''.py'' path
        then Some ((if CHR '':'' \<in> set path then fst (split_once CHR '':'' path) else path)
                   @ ''.py'')
      else Some path)"

text \<open>Lines 159 to 200: the body of the loop over the keyword arguments. A value that is
  \<^verbatim>\<open>None\<close> or empty is skipped.\<close>

definition copy_artifact ::
  "string \<Rightarrow> string \<Rightarrow> string \<times> string option \<Rightarrow> filesystem \<Rightarrow> unit fs_result" where
  "copy_artifact model_path encrypted_path kv fs =
     (case kv of
        (file_type, None) \<Rightarrow> (Inr (), fs)
      | (file_type, Some path) \<Rightarrow>
          if path = [] then (Inr (), fs)
          else
            (case (if file_type = ''handler'' then handler_source_path path else Some path) of
               None \<Rightarrow> (Inr (), fs)
             | Some path \<Rightarrow>
                 if file_type = ''extra_files'' then
                   for_each (copy_extra_file model_path encrypted_path)
                     (split_on CHR '','' path) fs
                 else if file_type = ''encrypted_files'' then
                   for_each (copy_encrypted_file model_path encrypted_path)
                     (split_on CHR '','' path) fs
                 else atomic fs (shutil_copy fs path model_path)))"

text \<open>\<^verbatim>\<open>copy_artifacts(model_name, **kwargs)\<close>; \<open>tmpdir\<close> is what
  \<^verbatim>\<open>tempfile.gettempdir()\<close> returns.\<close>

definition copy_artifacts ::
  "string \<Rightarrow> string \<Rightarrow> (string \<times> string option) list \<Rightarrow> filesystem \<Rightarrow> string fs_result" where
  "copy_artifacts tmpdir model_name kwargs fs =
     (let model_path = os_path_join tmpdir model_name;
          encrypted_path = os_path_join model_path ''encrypted_files''
      in case (if os_path_exists fs model_path then atomic fs (shutil_rmtree fs model_path)
               else (Inr (), fs)) of
           (Inl e, fs1) \<Rightarrow> (Inl e, fs1)
         | (Inr _, fs1) \<Rightarrow>
             (case make_dir model_path fs1 of
                (Inl e, fs2) \<Rightarrow> (Inl e, fs2)
              | (Inr _, fs2) \<Rightarrow>
                  (case make_dir encrypted_path fs2 of
                     (Inl e, fs3) \<Rightarrow> (Inl e, fs3)
                   | (Inr _, fs3) \<Rightarrow>
                       (case for_each (copy_artifact model_path encrypted_path) kwargs fs3 of
                          (Inl e, fs4) \<Rightarrow> (Inl e, fs4)
                        | (Inr _, fs4) \<Rightarrow> (Inr model_path, fs4)))))"

subsection \<open>Whole-archive encryption\<close>

text \<open>The block cipher of the \<^verbatim>\<open>cryptography\<close> package is a parameter: what AES does to
  one 16-byte block under a key. ECB mode and PKCS7 padding are written out.\<close>

record aes_lib =
  aes_encrypt_block :: "bytes \<Rightarrow> bytes \<Rightarrow> bytes"
  aes_decrypt_block :: "bytes \<Rightarrow> bytes \<Rightarrow> bytes"

function blocks :: "bytes \<Rightarrow> bytes list" where
  "blocks data = (if data = [] then [] else take 16 data # blocks (drop 16 data))"
  by pat_completeness auto
termination
  by (relation "measure length") auto

text \<open>\<^verbatim>\<open>algorithms.AES(key)\<close> accepts keys of 128, 192 and 256 bits.\<close>

definition aes_key_ok :: "bytes \<Rightarrow> bool" where
  "aes_key_ok key = (length key = 16 \<or> length key = 24 \<or> length key = 32)"

definition ecb_encrypt :: "aes_lib \<Rightarrow> bytes \<Rightarrow> bytes \<Rightarrow> pyerror + bytes" where
  "ecb_encrypt aes key data =
     (if \<not> aes_key_ok key then Inl (ValueError ''Invalid key size for AES.'')
      else if length data mod 16 \<noteq> 0 then
        Inl (ValueError
          ''The length of the provided data is not a multiple of the block length.'')
      else Inr (concat (map (aes_encrypt_block aes key) (blocks data))))"

definition ecb_decrypt :: "aes_lib \<Rightarrow> bytes \<Rightarrow> bytes \<Rightarrow> pyerror + bytes" where
  "ecb_decrypt aes key data =
     (if \<not> aes_key_ok key then Inl (ValueError ''Invalid key size for AES.'')
      else if length data mod 16 \<noteq> 0 then
        Inl (ValueError
          ''The length of the provided data is not a multiple of the block length.'')
      else Inr (concat (map (aes_decrypt_block aes key) (blocks data))))"

text \<open>\<^verbatim>\<open>padding.PKCS7(128)\<close>: the padder always adds between 1 and 16 bytes, each equal
  to their number; the unpadder checks them.\<close>

definition pkcs7_pad :: "bytes \<Rightarrow> bytes" where
  "pkcs7_pad data =
     (let n = 16 - length data mod 16 in data @ replicate n (char_of n))"

definition pkcs7_unpad :: "bytes \<Rightarrow> pyerror + bytes" where
  "pkcs7_unpad data =
     (if data = [] \<or> length data mod 16 \<noteq> 0 then Inl (ValueError ''Invalid padding bytes.'')
      else
        (let n = (of_char (last data) :: nat)
         in if n = 0 \<or> 16 < n
               \<or> \<not> list_all (\<lambda>c. c = last data) (drop (length data - n) data)
            then Inl (ValueError ''Invalid padding bytes.'')
            else Inr (take (length data - n) data)))"

text \<open>Lines 264 to 268 of \<^verbatim>\<open>archive\<close>.\<close>

definition encrypt_mar :: "aes_lib \<Rightarrow> bytes \<Rightarrow> bytes \<Rightarrow> pyerror + bytes" where
  "encrypt_mar aes key plain_text = ecb_encrypt aes key (pkcs7_pad plain_text)"

text \<open>Lines 149 to 152 of \<^verbatim>\<open>load_model\<close> in the worker.\<close>

definition decrypt_mar :: "aes_lib \<Rightarrow> bytes \<Rightarrow> bytes \<Rightarrow> pyerror + bytes" where
  "decrypt_mar aes key model =
     (case ecb_decrypt aes key model of
        Inl e \<Rightarrow> Inl e
      | Inr padded \<Rightarrow> pkcs7_unpad padded)"

subsection \<open>Building the archive\<close>

text \<open>The libraries around the archive builder: the serialisers of \<^verbatim>\<open>tarfile\<close> and
  \<^verbatim>\<open>zipfile\<close> (member names and contents to bytes; for a tar stream also what is on disk
  when the writer is dropped half-way), \<^verbatim>\<open>os.path.relpath\<close>, and the per-file codec of
  the \<^verbatim>\<open>encryption\<close> module, which is not among the source files.\<close>

record archiver_lib =
  tar_gz_bytes :: "(string \<times> bytes) list \<Rightarrow> bytes"
  tar_gz_partial :: "(string \<times> bytes) list \<Rightarrow> bytes"
  zip_bytes :: "(string \<times> bytes) list \<Rightarrow> bytes"
  os_path_relpath :: "string \<Rightarrow> string \<Rightarrow> string"
  encryption_is_path :: "string \<Rightarrow> bool"
  decrypt_buffer :: "bytes \<Rightarrow> bytes \<Rightarrow> pyerror + bytes"

definition directory_filter :: "string \<Rightarrow> string list \<Rightarrow> bool" where
  "directory_filter directory unwanted_dirs =
     (if directory \<in> set unwanted_dirs then False
      else if prefix ''.'' directory then False
      else True)"

text \<open>\<^verbatim>\<open>os.walk(top)\<close>, top-down, with the directories to descend into pruned by
  \<open>keep\<close> as the loop body of \<^verbatim>\<open>archive_dir\<close> prunes them: the list of
  (directory, names of its non-directories). A directory that cannot be listed is skipped.
  The recursion is bounded by the table's size, which the depth of a tree cannot exceed.
  The walk is taken over the file system as \<^verbatim>\<open>archive_dir\<close> finds it.\<close>

fun walk_from ::
  "nat \<Rightarrow> (string \<Rightarrow> bool) \<Rightarrow> filesystem \<Rightarrow> string \<Rightarrow> (string \<times> string list) list" where
  "walk_from 0 keep fs top_dir = []"
| "walk_from (Suc n) keep fs top_dir =
     (case os_listdir fs top_dir of
        Inl _ \<Rightarrow> []
      | Inr names \<Rightarrow>
          (let directories = filter (\<lambda>d. os_path_isdir fs (os_path_join top_dir d)) names;
               files = filter (\<lambda>f. \<not> os_path_isdir fs (os_path_join top_dir f)) names
           in (top_dir, files) #
              concat (map (\<lambda>d. walk_from n keep fs (os_path_join top_dir d))
                        (filter keep directories))))"

definition os_walk :: "(string \<Rightarrow> bool) \<Rightarrow> filesystem \<Rightarrow> string \<Rightarrow> (string \<times> string list) list" where
  "os_walk keep fs top_dir = walk_from (Suc (length fs)) keep fs top_dir"

text \<open>\<^verbatim>\<open>s.replace(old, new)\<close> for a non-empty \<open>old\<close>.\<close>

function str_replace :: "string \<Rightarrow> string \<Rightarrow> string \<Rightarrow> string" where
  "str_replace old new s =
     (if s = [] \<or> old = [] then s
      else if prefix old s then new @ str_replace old new (drop (length old) s)
      else hd s # str_replace old new (tl s))"
  by pat_completeness auto
termination
  by (relation "measure (\<lambda>(old, new, s). length s)") auto

text \<open>What \<^verbatim>\<open>archive_dir\<close> adds a file from: a path, or the buffer a staged encrypted file
  was decrypted into.\<close>

datatype file_src = SrcPath string | SrcBuffer bytes

text \<open>Lines 313 to 329 of \<^verbatim>\<open>archive_dir\<close>: a file below the encrypted-staging
  directory is decrypted with the key file. \<^verbatim>\<open>open(None)\<close> raises \<^verbatim>\<open>TypeError\<close>. The
  \<^verbatim>\<open>else\<close> branch of line 326 reads the unbound name \<^verbatim>\<open>decrpyted_buf\<close>.\<close>

definition staged_file ::
  "archiver_lib \<Rightarrow> filesystem \<Rightarrow> string \<Rightarrow> string option \<Rightarrow> string \<Rightarrow> string
    \<Rightarrow> pyerror + (file_src \<times> string)" where
  "staged_file lib fs path decryption_key root f =
     (let file_path = os_path_join root f;
          encryption_path = os_path_join path ''encrypted_files''
      in if sublist encryption_path root then
           (case decryption_key of
              None \<Rightarrow> Inl (TypeError ''expected str, bytes or os.PathLike object, not NoneType'')
            | Some key_path \<Rightarrow>
                (case read_file fs key_path of
                   Inl e \<Rightarrow> Inl e
                 | Inr key \<Rightarrow>
                     (case read_file fs file_path of
                        Inl e \<Rightarrow> Inl e
                      | Inr cipher \<Rightarrow>
                          if encryption_is_path lib file_path then
                            (case decrypt_buffer lib key cipher of
                               Inl e \<Rightarrow> Inl e
                             | Inr plain \<Rightarrow>
                                 Inr (SrcBuffer plain,
                                      str_replace ''encrypted_files'' [] file_path))
                          else Inl (NameError ''decrpyted_buf''))))
         else Inr (SrcPath file_path, file_path))"

text \<open>The state of \<^verbatim>\<open>archive_dir\<close>: the members written to the tar or zip writer so far,
  and the file system. Its destination \<open>dst\<close> matters for the directory format only, where
  it is the export path, or \<open>None\<close> for the \<^verbatim>\<open>io.BytesIO\<close> that \<^verbatim>\<open>archive\<close> passes when
  encryption was asked for: \<^verbatim>\<open>os.path.join\<close> of a buffer raises \<^verbatim>\<open>TypeError\<close>, and so do
  \<^verbatim>\<open>TarFile.add\<close> and \<^verbatim>\<open>shutil.copy\<close> of a buffer.\<close>

type_synonym archive_state = "(string \<times> bytes) list \<times> filesystem"

text \<open>Lines 312 to 348: the body of the loop over the files of one directory.\<close>

definition archive_file ::
  "archiver_lib \<Rightarrow> string \<Rightarrow> string option \<Rightarrow> string \<Rightarrow> string \<Rightarrow> string option \<Rightarrow> string
    \<Rightarrow> string \<Rightarrow> archive_state \<Rightarrow> (unit, archive_state) result" where
  "archive_file lib path dst archive_format model_name decryption_key root f st =
     (case st of (entries, fs) \<Rightarrow>
        (case staged_file lib fs path decryption_key root f of
           Inl e \<Rightarrow> (Inl e, st)
         | Inr (file, file_path) \<Rightarrow>
             if archive_format = ''tgz'' then
               (case file of
                  SrcBuffer _ \<Rightarrow> (Inl (TypeError ''TarFile.add of a buffer''), st)
                | SrcPath p \<Rightarrow>
                    (case read_file fs p of
                       Inl e \<Rightarrow> (Inl e, st)
                     | Inr b \<Rightarrow>
                         (Inr (),
                          (entries @ [(os_path_join model_name
                                         (os_path_relpath lib file_path path), b)], fs))))
             else if archive_format = ''no-archive'' then
               (case dst of
                  None \<Rightarrow> (Inl (TypeError ''os.path.join of a buffer''), st)
                | Some d \<Rightarrow>
                    (let dst_dir = os_path_dirname
                           (os_path_join d (os_path_relpath lib file_path path))
                     in case make_dir dst_dir fs of
                          (Inl e, fs') \<Rightarrow> (Inl e, (entries, fs'))
                        | (Inr _, fs') \<Rightarrow>
                            (case file of
                               SrcBuffer _ \<Rightarrow>
                                 (Inl (TypeError ''shutil.copy of a buffer''), (entries, fs'))
                             | SrcPath p \<Rightarrow>
                                 (case atomic fs' (shutil_copy fs' p dst_dir) of
                                    (r, fs'') \<Rightarrow> (r, (entries, fs''))))))
             else
               (case file of
                  SrcBuffer b \<Rightarrow>
                    (Inr (), (entries @ [(os_path_relpath lib file_path path, b)], fs))
                | SrcPath p \<Rightarrow>
                    (case read_file fs p of
                       Inl e \<Rightarrow> (Inl e, st)
                     | Inr b \<Rightarrow>
                         (Inr (),
                          (entries @ [(os_path_relpath lib file_path path, b)], fs))))))"

definition archive_dir ::
  "archiver_lib \<Rightarrow> string \<Rightarrow> string option \<Rightarrow> string \<Rightarrow> string \<Rightarrow> string option
    \<Rightarrow> archive_state \<Rightarrow> (unit, archive_state) result" where
  "archive_dir lib path dst archive_format model_name decryption_key st =
     (let unwanted_dirs = [''__MACOSX'', ''__pycache__'']
      in for_each
           (\<lambda>(root, files).
              for_each (archive_file lib path dst archive_format model_name decryption_key root)
                files)
           (os_walk (\<lambda>d. directory_filter d unwanted_dirs) (snd st) path) st)"

text \<open>In \<^verbatim>\<open>archive\<close> the variable \<^verbatim>\<open>mar_path\<close> is the export path, or an
  \<^verbatim>\<open>io.BytesIO\<close> when \<^verbatim>\<open>model_encryption\<close> is set: \<open>Some\<close> path or \<open>None\<close> below.
  Each of the three branches returns what the buffer holds in the end (nothing when the
  archive went to a path).\<close>

text \<open>Lines 227 to 238. \<^verbatim>\<open>tarfile.open(mar_path, "w:gz")\<close> takes its first argument as a
  file name and raises \<^verbatim>\<open>TypeError\<close> for a buffer; for a path it creates the file at
  once.\<close>

definition archive_tgz ::
  "archiver_lib \<Rightarrow> string option \<Rightarrow> string \<Rightarrow> string \<Rightarrow> string \<Rightarrow> string \<Rightarrow> string option
    \<Rightarrow> filesystem \<Rightarrow> bytes fs_result" where
  "archive_tgz lib mar_path model_name model_path manifest archive_format decryption_key fs =
     (case mar_path of
        None \<Rightarrow> (Inl (TypeError ''expected str, bytes or os.PathLike object, not BytesIO''), fs)
      | Some p \<Rightarrow>
          (case write_file fs p (tar_gz_partial lib []) of
             Inl e \<Rightarrow> (Inl e, fs)
           | Inr fs1 \<Rightarrow>
               (case archive_dir lib model_path None archive_format model_name decryption_key
                       ([], fs1) of
                  (Inl e, (entries, fs2)) \<Rightarrow>
                    (Inl e, AList.update p (File (tar_gz_partial lib entries)) fs2)
                | (Inr _, (entries, fs2)) \<Rightarrow>
                    (Inr [],
                     AList.update p
                       (File (tar_gz_bytes lib
                          (entries @
                           [(os_path_join (os_path_join model_name MAR_INF) MANIFEST_FILE_NAME,
                             manifest)])))
                       fs2))))"

text \<open>Lines 239 to 249. A string never equals a buffer, so with encryption
  \<^verbatim>\<open>archive_dir\<close> is called with the buffer as its destination; \<^verbatim>\<open>os.path.join\<close> of
  the buffer then raises \<^verbatim>\<open>TypeError\<close>.\<close>

definition archive_no_archive ::
  "archiver_lib \<Rightarrow> string option \<Rightarrow> string \<Rightarrow> string \<Rightarrow> string \<Rightarrow> string \<Rightarrow> string option
    \<Rightarrow> filesystem \<Rightarrow> bytes fs_result" where
  "archive_no_archive lib mar_path model_name model_path manifest archive_format
      decryption_key fs =
     (case (if Some model_path \<noteq> mar_path
            then archive_dir lib model_path mar_path archive_format model_name decryption_key
                   ([], fs)
            else (Inr (), ([], fs))) of
        (Inl e, (_, fs1)) \<Rightarrow> (Inl e, fs1)
      | (Inr _, (_, fs1)) \<Rightarrow>
          (case mar_path of
             None \<Rightarrow>
               (Inl (TypeError ''expected str, bytes or os.PathLike object, not BytesIO''), fs1)
           | Some p \<Rightarrow>
               (let manifest_path = os_path_join p MAR_INF
                in case make_dir manifest_path fs1 of
                     (Inl e, fs2) \<Rightarrow> (Inl e, fs2)
                   | (Inr _, fs2) \<Rightarrow>
                       (case write_file fs2 (os_path_join manifest_path MANIFEST_FILE_NAME)
                               manifest of
                          Inl e \<Rightarrow> (Inl e, fs2)
                        | Inr fs3 \<Rightarrow> (Inr [], fs3)))))"

text \<open>Lines 250 to 256. \<^verbatim>\<open>zipfile.ZipFile\<close> writes to a path or to a buffer; leaving the
  \<^verbatim>\<open>with\<close> block closes the writer, also on an exception.\<close>

definition archive_zip ::
  "archiver_lib \<Rightarrow> string option \<Rightarrow> string \<Rightarrow> string \<Rightarrow> string \<Rightarrow> string \<Rightarrow> string option
    \<Rightarrow> filesystem \<Rightarrow> bytes fs_result" where
  "archive_zip lib mar_path model_name model_path manifest archive_format decryption_key fs =
     (case (case mar_path of
              None \<Rightarrow> Inr fs
            | Some p \<Rightarrow> write_file fs p (zip_bytes lib [])) of
        Inl e \<Rightarrow> (Inl e, fs)
      | Inr fs1 \<Rightarrow>
          (case archive_dir lib model_path None archive_format model_name decryption_key
                  ([], fs1) of
             (Inl e, (entries, fs2)) \<Rightarrow>
               (Inl e,
                case mar_path of
                  None \<Rightarrow> fs2
                | Some p \<Rightarrow> AList.update p (File (zip_bytes lib entries)) fs2)
           | (Inr _, (entries, fs2)) \<Rightarrow>
               (let members = entries @ [(os_path_join MAR_INF MANIFEST_FILE_NAME, manifest)]
                in case mar_path of
                     None \<Rightarrow> (Inr (zip_bytes lib members), fs2)
                   | Some p \<Rightarrow>
                       (Inr [], AList.update p (File (zip_bytes lib members)) fs2))))"

text \<open>\<^verbatim>\<open>archive\<close>. Both \<^verbatim>\<open>except\<close> clauses log and raise the exception again, so an
  error of a branch is the error of \<^verbatim>\<open>archive\<close>.\<close>

definition archive ::
  "archiver_lib \<Rightarrow> aes_lib \<Rightarrow> string \<Rightarrow> string \<Rightarrow> string \<Rightarrow> string \<Rightarrow> string \<Rightarrow> bool
    \<Rightarrow> string option \<Rightarrow> string option \<Rightarrow> filesystem \<Rightarrow> unit fs_result" where
  "archive lib aes export_file model_name model_path manifest archive_format model_encryption
      encryption_key decryption_key fs =
     (let mar_path =
            (if model_encryption then None
             else Some (get_archive_export_path export_file model_name archive_format))
      in case (if archive_format = ''tgz'' then
                 archive_tgz lib mar_path model_name model_path manifest archive_format
                   decryption_key fs
               else if archive_format = ''no-archive'' then
                 archive_no_archive lib mar_path model_name model_path manifest archive_format
                   decryption_key fs
               else
                 archive_zip lib mar_path model_name model_path manifest archive_format
                   decryption_key fs) of
           (Inl e, fs1) \<Rightarrow> (Inl e, fs1)
         | (Inr plain_text, fs1) \<Rightarrow>
             if model_encryption \<and> encryption_key \<noteq> None \<and> archive_format \<noteq> ''no-archive''
             then
               (case encryption_key of
                  None \<Rightarrow> (Inr (), fs1)
                | Some key_path \<Rightarrow>
                    (case read_file fs1 key_path of
                       Inl e \<Rightarrow> (Inl e, fs1)
                     | Inr key \<Rightarrow>
                         (case encrypt_mar aes key plain_text of
                            Inl e \<Rightarrow> (Inl e, fs1)
                          | Inr cipher_text \<Rightarrow>
                              atomic fs1
                                (write_file fs1
                                   (get_archive_export_path export_file model_name
                                      archive_format)
                                   cipher_text))))
             else (Inr (), fs1))"

subsection \<open>The export path of the specification\<close>

text \<open>The export path as the specification words it: export directory, a slash, the
  model name and the extension of the format, \<^verbatim>\<open>.mar\<close> for every tag but \<^verbatim>\<open>tgz\<close> and the
  directory format.\<close>

definition spec_ext :: "string \<Rightarrow> string" where
  "spec_ext archive_format =
     (if archive_format = ''tgz'' then ''.tar.gz''
      else if archive_format = ''no-archive'' then ''''
      else ''.mar'')"

definition spec_resolveExportPath :: "string \<Rightarrow> string \<Rightarrow> string \<Rightarrow> string" where
  "spec_resolveExportPath export_dir model_name archive_format =
     export_dir @ ''/'' @ model_name @ spec_ext archive_format"

section \<open>The handler resolver (\<^verbatim>\<open>ts/model_loader.py\<close>)\<close>

subsection \<open>JSON, modules and services\<close>

datatype json =
    JNull | JBool bool | JNum int | JStr string
  | JArr "json list" | JObj "(string \<times> json) list"

text \<open>The model directory handed to the loader: a dictionary from member names to byte
  streams (\<^verbatim>\<open>io.BytesIO\<close>), or a directory path. A stream keeps its read position:
  \<^verbatim>\<open>read()\<close> returns what is left and leaves nothing, so the table holds what is left of
  each stream.\<close>

datatype model_dir = InMemory "(string \<times> bytes) list" | OnDisk string

text \<open>\<^verbatim>\<open>d[k].read()\<close>: \<^verbatim>\<open>KeyError\<close> for a missing key; the stream is consumed.\<close>

definition dict_read ::
  "(string \<times> bytes) list \<Rightarrow> string \<Rightarrow> pyerror + (bytes \<times> (string \<times> bytes) list)" where
  "dict_read d k =
     (case map_of d k of
        None \<Rightarrow> Inl (KeyError k)
      | Some b \<Rightarrow> Inr (b, AList.update k [] d))"

record metrics_cache =
  mc_config_file_path :: "string option"
  mc_model_name :: "string option"

text \<open>Modelled from the spec: \<^verbatim>\<open>ts.service.Service\<close> is not among the source files. The
  specification describes it as the binding of model name, manifest, resolved entry point,
  device and batch configuration, image-size-limit flag and metrics sink, with a context
  object that is passed to handler initialisers. The constructor is taken to store its
  arguments and never to raise.\<close>

record py_context =
  ctx_model_name :: string
  ctx_model_dir :: model_dir
  ctx_manifest :: "json option"
  ctx_gpu_id :: "int option"
  ctx_batch_size :: "int option"
  ctx_limit_max_image_pixels :: bool
  ctx_metrics :: metrics_cache

text \<open>A callable looked up on a module or an instance, as the loader and the service
  call it: with a payload (or \<^verbatim>\<open>None\<close>) and the context. Calling an attribute that is
  not callable raises \<^verbatim>\<open>TypeError\<close>, which such a function returns for every input.\<close>

type_synonym entry_fn = "bytes option \<Rightarrow> py_context \<Rightarrow> pyerror + bytes"

type_synonym initialize_fn = "py_context \<Rightarrow> pyerror + unit"

record service =
  svc_entry_point :: entry_fn
  svc_context :: py_context

definition Service ::
  "string \<Rightarrow> model_dir \<Rightarrow> json option \<Rightarrow> entry_fn \<Rightarrow> int option \<Rightarrow> int option \<Rightarrow> bool
    \<Rightarrow> metrics_cache \<Rightarrow> service" where
  "Service model_name model_dir manifest entry_point gpu_id batch_size limit_max_image_pixels
      metrics =
     \<lparr> svc_entry_point = entry_point,
       svc_context = \<lparr> ctx_model_name = model_name, ctx_model_dir = model_dir,
         ctx_manifest = manifest, ctx_gpu_id = gpu_id, ctx_batch_size = batch_size,
         ctx_limit_max_image_pixels = limit_max_image_pixels, ctx_metrics = metrics \<rparr> \<rparr>"

text \<open>An instance of a handler or envelope class: its \<^verbatim>\<open>handle\<close> and \<^verbatim>\<open>initialize\<close>
  attributes, where it has them. A class is its name and what calling it with the given
  positional arguments does.\<close>

record pyinstance =
  inst_handle :: "entry_fn option"
  inst_initialize :: "initialize_fn option"

record pyclass =
  cls_name :: string
  cls_new :: "entry_fn list \<Rightarrow> pyerror + pyinstance"

record pymodule =
  mod_name :: string
  mod_attrs :: "string \<Rightarrow> entry_fn option"

text \<open>What the variable \<^verbatim>\<open>module\<close> of \<^verbatim>\<open>load\<close> holds: a module, or, after the
  \<^verbatim>\<open>except ImportError\<close> branch, the whole pair that the helper returned.\<close>

datatype module_ref = Module pymodule | ModuleTuple pymodule "string option"

text \<open>The interpreter and the library around the loader. \<^verbatim>\<open>list_classes_from_module\<close>
  (\<^verbatim>\<open>ts/utils/util.py\<close>) is not among the source files and is a parameter here, as are
  \<^verbatim>\<open>importlib.import_module\<close>, \<^verbatim>\<open>exec\<close> of a handler source into a fresh module, the
  import of a built-in envelope module and \<^verbatim>\<open>json.loads\<close>.\<close>

record py_env =
  import_module :: "string \<Rightarrow> pyerror + pymodule"
  exec_module :: "string \<Rightarrow> bytes \<Rightarrow> pyerror + pymodule"
  import_envelope :: "string \<Rightarrow> pyerror + pymodule"
  list_classes_from_module :: "module_ref \<Rightarrow> pyerror + pyclass list"
  json_loads :: "bytes \<Rightarrow> pyerror + json"

subsection \<open>Handler references\<close>

text \<open>The module name of a handler reference: the part before the first colon, without a
  final \<^verbatim>\<open>.py\<close>, and of that the part after the last slash.\<close>

definition handler_module_name :: "string \<Rightarrow> string" where
  "handler_module_name handler =
     (let module_name = fst (split_once CHR '':'' handler);
          module_name = (if suffix ''.py'' module_name
                         then take (length module_name - 3) module_name else module_name)
      in last (split_on CHR ''/'' module_name))"

definition handler_function_name :: "string \<Rightarrow> string option" where
  "handler_function_name handler = snd (split_once CHR '':'' handler)"

subsection \<open>The loader\<close>

definition load_handler_buf ::
  "py_env \<Rightarrow> string \<Rightarrow> bytes \<Rightarrow> pyerror + (pymodule \<times> string option)" where
  "load_handler_buf env handler handler_buf =
     (case exec_module env (handler_module_name handler) handler_buf of
        Inl e \<Rightarrow> Inl e
      | Inr m \<Rightarrow> Inr (m, handler_function_name handler))"

text \<open>\<^verbatim>\<open>_load_handler_file(None)\<close> fails at \<^verbatim>\<open>handler.split\<close>.\<close>

definition load_handler_file ::
  "py_env \<Rightarrow> string option \<Rightarrow> pyerror + (pymodule \<times> string option)" where
  "load_handler_file env handler =
     (case handler of
        None \<Rightarrow> Inl (AttributeError ''split'')
      | Some h \<Rightarrow>
          (case import_module env (handler_module_name h) of
             Inl e \<Rightarrow> Inl e
           | Inr m \<Rightarrow> Inr (m, handler_function_name h)))"

text \<open>\<^verbatim>\<open>_load_handler_buf(handler, model_dir[handler])\<close> on the dictionary: the subscript
  comes first and raises \<^verbatim>\<open>KeyError\<close>; the helper then reads the stream to its end.\<close>

definition load_from_dict ::
  "py_env \<Rightarrow> (string \<times> bytes) list \<Rightarrow> string option
    \<Rightarrow> (pyerror + (pymodule \<times> string option)) \<times> (string \<times> bytes) list" where
  "load_from_dict env d handler =
     (case handler of
        None \<Rightarrow> (Inl (KeyError ''None''), d)
      | Some h \<Rightarrow>
          (case dict_read d h of
             Inl e \<Rightarrow> (Inl e, d)
           | Inr (buf, d') \<Rightarrow> (load_handler_buf env h buf, d')))"

definition is_ImportError :: "pyerror \<Rightarrow> bool" where
  "is_ImportError e = (case e of ImportError _ \<Rightarrow> True | _ \<Rightarrow> False)"

text \<open>Lines 109 to 119 of \<^verbatim>\<open>load\<close>: the \<^verbatim>\<open>try\<close> unpacks the helper's pair; the
  \<^verbatim>\<open>except ImportError\<close> branch calls the helper again and keeps the pair whole in
  \<^verbatim>\<open>module\<close>, leaving \<^verbatim>\<open>function_name\<close> at \<^verbatim>\<open>None\<close>.\<close>

definition load_module ::
  "py_env \<Rightarrow> model_dir \<Rightarrow> string option
    \<Rightarrow> pyerror + (module_ref \<times> string option \<times> model_dir)" where
  "load_module env model_dir handler =
     (case model_dir of
        InMemory d \<Rightarrow>
          (case load_from_dict env d handler of
             (Inr (m, function_name), d') \<Rightarrow> Inr (Module m, function_name, InMemory d')
           | (Inl e, d') \<Rightarrow>
               if is_ImportError e then
                 (case load_from_dict env d' handler of
                    (Inr (m, fn), d'') \<Rightarrow> Inr (ModuleTuple m fn, None, InMemory d'')
                  | (Inl e', _) \<Rightarrow> Inl e')
               else Inl e)
      | OnDisk p \<Rightarrow>
          (case load_handler_file env handler of
             Inr (m, function_name) \<Rightarrow> Inr (Module m, function_name, OnDisk p)
           | Inl e \<Rightarrow>
               if is_ImportError e then
                 (case load_handler_file env handler of
                    Inr (m, fn) \<Rightarrow> Inr (ModuleTuple m fn, None, OnDisk p)
                  | Inl e' \<Rightarrow> Inl e')
               else Inl e))"

text \<open>Lines 99 to 107 of \<^verbatim>\<open>load\<close>: the manifest of a dictionary is read by subscript;
  that of a directory only when the file exists.\<close>

definition load_manifest ::
  "py_env \<Rightarrow> filesystem \<Rightarrow> model_dir \<Rightarrow> pyerror + (json option \<times> model_dir)" where
  "load_manifest env fs model_dir =
     (case model_dir of
        InMemory d \<Rightarrow>
          (case dict_read d ''MAR-INF/MANIFEST.json'' of
             Inl e \<Rightarrow> Inl e
           | Inr (text, d') \<Rightarrow>
               (case json_loads env text of
                  Inl e \<Rightarrow> Inl e
                | Inr manifest \<Rightarrow> Inr (Some manifest, InMemory d')))
      | OnDisk p \<Rightarrow>
          (let manifest_file = os_path_join (os_path_join p ''MAR-INF'') ''MANIFEST.json''
           in if os_path_exists fs manifest_file then
                (case read_file fs manifest_file of
                   Inl e \<Rightarrow> Inl e
                 | Inr text \<Rightarrow>
                     (case json_loads env text of
                        Inl e \<Rightarrow> Inl e
                      | Inr manifest \<Rightarrow> Inr (Some manifest, OnDisk p)))
              else Inr (None, OnDisk p)))"

text \<open>\<^verbatim>\<open>hasattr\<close> and \<^verbatim>\<open>getattr\<close> on what \<^verbatim>\<open>module\<close> holds. On the pair the only
  name ever looked up is \<^verbatim>\<open>handle\<close>, which a tuple does not have.\<close>

definition module_getattr :: "module_ref \<Rightarrow> string \<Rightarrow> entry_fn option" where
  "module_getattr module name =
     (case module of Module m \<Rightarrow> mod_attrs m name | ModuleTuple _ _ \<Rightarrow> None)"

definition load_default_envelope :: "py_env \<Rightarrow> string \<Rightarrow> pyerror + pyclass" where
  "load_default_envelope env envelope =
     (case import_envelope env envelope of
        Inl e \<Rightarrow> Inl e
      | Inr m \<Rightarrow>
          (case list_classes_from_module env (Module m) of
             Inl e \<Rightarrow> Inl e
           | Inr [] \<Rightarrow> Inl (IndexError ''list index out of range'')
           | Inr (envelope_class # _) \<Rightarrow> Inr envelope_class))"

definition get_function_entry_point :: "entry_fn \<Rightarrow> entry_fn \<times> initialize_fn" where
  "get_function_entry_point entry_point =
     (entry_point,
      \<lambda>ctx. case entry_point None ctx of Inl e \<Rightarrow> Inl e | Inr _ \<Rightarrow> Inr ())"

text \<open>\<^verbatim>\<open>str\<close> of a class and of a list of classes, as \<^verbatim>\<open>format\<close> prints them into
  the error messages; \<open>cls_name\<close> is the qualified name.\<close>

definition str_class :: "pyclass \<Rightarrow> string" where
  "str_class c = ''<class '' @ [CHR 0x27] @ cls_name c @ [CHR 0x27] @ ''>''"

fun join_comma :: "string list \<Rightarrow> string" where
  "join_comma [] = []"
| "join_comma [x] = x"
| "join_comma (x # y # ys) = x @ '', '' @ join_comma (y # ys)"

definition str_class_list :: "pyclass list \<Rightarrow> string" where
  "str_class_list cs = ''['' @ join_comma (map str_class cs) @ '']''"

definition get_class_entry_point ::
  "py_env \<Rightarrow> module_ref \<Rightarrow> pyerror + (entry_fn \<times> initialize_fn)" where
  "get_class_entry_point env module =
     (case list_classes_from_module env module of
        Inl e \<Rightarrow> Inl e
      | Inr model_class_definitions \<Rightarrow>
          (case model_class_definitions of
             [model_class] \<Rightarrow>
               (case cls_new model_class [] of
                  Inl e \<Rightarrow> Inl e
                | Inr model_service \<Rightarrow>
                    (case inst_handle model_service of
                       None \<Rightarrow>
                         Inl (ValueError
                           (''Expect handle method in class '' @ str_class model_class))
                     | Some handle \<Rightarrow>
                         (case inst_initialize model_service of
                            None \<Rightarrow> Inl (AttributeError ''initialize'')
                          | Some initialize \<Rightarrow> Inr (handle, initialize))))
           | _ \<Rightarrow>
               Inl (ValueError
                 (''Expected only one class in custom service code or a function entry point ''
                  @ str_class_list model_class_definitions))))"

text \<open>Lines 143 to 145: the envelope class, when an envelope name was given.\<close>

definition load_envelope_class :: "py_env \<Rightarrow> string option \<Rightarrow> pyerror + pyclass option" where
  "load_envelope_class env envelope =
     (case envelope of
        None \<Rightarrow> Inr None
      | Some name \<Rightarrow>
          (case load_default_envelope env name of
             Inl e \<Rightarrow> Inl e
           | Inr envelope_class \<Rightarrow> Inr (Some envelope_class)))"

text \<open>Lines 155 to 157: \<^verbatim>\<open>envelope_class(entry_point).handle\<close>.\<close>

definition wrap_envelope :: "pyclass option \<Rightarrow> entry_fn \<Rightarrow> pyerror + entry_fn" where
  "wrap_envelope envelope_class entry_point =
     (case envelope_class of
        None \<Rightarrow> Inr entry_point
      | Some c \<Rightarrow>
          (case cls_new c [entry_point] of
             Inl e \<Rightarrow> Inl e
           | Inr envelope_instance \<Rightarrow>
               (case inst_handle envelope_instance of
                  None \<Rightarrow> Inl (AttributeError ''handle'')
                | Some h \<Rightarrow> Inr h)))"

text \<open>Lines 121 to 171 of \<^verbatim>\<open>load\<close>, from the loaded module on. The name looked up is
  \<^verbatim>\<open>handle\<close> when no entry name was given (or an empty one, by
  \<^verbatim>\<open>function_name or "handle"\<close>). The first \<^verbatim>\<open>Service\<close> of lines 130 to 141 is built and
  dropped; the constructor has no effect in this model, so it is left out. The test
  \<^verbatim>\<open>module is None\<close> of line 121 never holds: both helpers return a pair or raise.\<close>

definition resolve_and_build ::
  "py_env \<Rightarrow> string \<Rightarrow> model_dir \<Rightarrow> json option \<Rightarrow> module_ref \<Rightarrow> string option
    \<Rightarrow> int option \<Rightarrow> int option \<Rightarrow> string option \<Rightarrow> bool \<Rightarrow> metrics_cache
    \<Rightarrow> pyerror + service" where
  "resolve_and_build env model_name model_dir manifest module function_name gpu_id batch_size
      envelope limit_max_image_pixels metrics =
     (let function_name = (case function_name of None \<Rightarrow> ''handle'' | Some f \<Rightarrow> f)
      in case load_envelope_class env envelope of
           Inl e \<Rightarrow> Inl e
         | Inr envelope_class \<Rightarrow>
             (let function_name = (if function_name = [] then ''handle'' else function_name)
              in case (case module_getattr module function_name of
                         Some f \<Rightarrow> Inr (get_function_entry_point f)
                       | None \<Rightarrow> get_class_entry_point env module) of
                   Inl e \<Rightarrow> Inl e
                 | Inr (entry_point, initialize) \<Rightarrow>
                     (case wrap_envelope envelope_class entry_point of
                        Inl e \<Rightarrow> Inl e
                      | Inr entry_point \<Rightarrow>
                          (let service = Service model_name model_dir manifest entry_point
                                 gpu_id batch_size limit_max_image_pixels metrics
                           in case initialize (svc_context service) of
                                Inl e \<Rightarrow> Inl e
                              | Inr _ \<Rightarrow> Inr service))))"

definition load ::
  "py_env \<Rightarrow> filesystem \<Rightarrow> string \<Rightarrow> model_dir \<Rightarrow> string option \<Rightarrow> int option
    \<Rightarrow> int option \<Rightarrow> string option \<Rightarrow> bool \<Rightarrow> metrics_cache \<Rightarrow> pyerror + service" where
  "load env fs model_name model_dir handler gpu_id batch_size envelope
      limit_max_image_pixels metrics =
     (case load_manifest env fs model_dir of
        Inl e \<Rightarrow> Inl e
      | Inr (manifest, model_dir) \<Rightarrow>
          (case load_module env model_dir handler of
             Inl e \<Rightarrow> Inl e
           | Inr (module, function_name, model_dir) \<Rightarrow>
               resolve_and_build env model_name model_dir manifest module function_name
                 gpu_id batch_size envelope limit_max_image_pixels metrics))"

section \<open>The worker (\<^verbatim>\<open>ts/model_service_worker.py\<close>)\<close>

subsection \<open>Messages and the worker's configuration\<close>

text \<open>The decoder \<^verbatim>\<open>retrieve_msg\<close> and the encoder \<^verbatim>\<open>create_load_model_response\<close>
  (\<^verbatim>\<open>ts/protocol/otf_message_handler.py\<close>) are not among the source files. A frame is the
  command tag and the message that \<^verbatim>\<open>retrieve_msg\<close> returns; the fields of a Load message
  are those of the specification's wire protocol, already decoded. Modelled from the spec:
  a Load response is its status code and its message.\<close>

record load_model_request =
  req_modelPath :: bytes
  req_modelName :: bytes
  req_handler :: bytes
  req_envelope :: "bytes option"
  req_batchSize :: "int option"
  req_gpu :: "int option"
  req_limitMaxImagePixels :: "bool option"

datatype message = LoadMsg load_model_request | PredictMsg bytes

type_synonym frame = "bytes \<times> message"

datatype response = PredictResponse bytes | LoadModelResponse int string

text \<open>The attributes that \<^verbatim>\<open>run_server\<close> concatenates into the registration URL may
  hold a string, an integer (\<^verbatim>\<open>__init__\<close> sets \<^verbatim>\<open>self.port\<close> to \<^verbatim>\<open>-1\<close> for a unix
  socket) or \<^verbatim>\<open>None\<close>.\<close>

datatype pyval = PyNone | PyStr string | PyInt int

record worker =
  self_frontend_ip :: pyval
  self_frontend_port :: pyval
  self_model_name :: pyval
  self_host :: pyval
  self_port :: pyval
  self_model_file :: string
  self_model_decryption :: bool
  self_decryption_key :: string
  self_saved_on_disk :: bool
  self_secured_dir :: string
  self_metrics_cache :: metrics_cache

text \<open>What the worker needs beyond the loader's environment: reading the members of a zip
  archive (\<^verbatim>\<open>zipfile\<close>), and \<^verbatim>\<open>Service.predict\<close>, which is not among the source
  files.\<close>

record worker_env =
  loader_env :: py_env
  aes :: aes_lib
  zip_members :: "bytes \<Rightarrow> pyerror + (string \<times> bytes) list"
  service_predict :: "service \<Rightarrow> message \<Rightarrow> pyerror + bytes"

text \<open>Decimal digits of an integer, for \<^verbatim>\<open>"{} - {}".format(code, result)\<close>.\<close>

function str_nat :: "nat \<Rightarrow> string" where
  "str_nat n =
     (if n < 10 then [char_of (48 + n)]
      else str_nat (n div 10) @ [char_of (48 + n mod 10)])"
  by pat_completeness auto
termination
  by (relation "measure id") auto

definition str_int :: "int \<Rightarrow> string" where
  "str_int i = (if i < 0 then CHR ''-'' # str_nat (nat (- i)) else str_nat (nat i))"

subsection \<open>Loading a model\<close>

text \<open>Lines 163 to 168: the dictionary of member streams, a later member of the same name
  replacing an earlier one.\<close>

definition dict_of_members :: "(string \<times> bytes) list \<Rightarrow> (string \<times> bytes) list" where
  "dict_of_members members = fold (\<lambda>kv d. AList.update (fst kv) (snd kv) d) members []"

text \<open>\<^verbatim>\<open>extractall\<close>: each member is written below the directory, its parent directories
  created; member names are taken as relative paths.\<close>

definition extract_member :: "string \<Rightarrow> string \<times> bytes \<Rightarrow> filesystem \<Rightarrow> unit fs_result" where
  "extract_member dir kv fs =
     (let target = os_path_join dir (fst kv)
      in if suffix ''/'' (fst kv) then make_dir (os_path_dirname target) fs
         else
           (case make_dir (os_path_dirname target) fs of
              (Inl e, fs') \<Rightarrow> (Inl e, fs')
            | (Inr _, fs') \<Rightarrow> atomic fs' (write_file fs' target (snd kv))))"

text \<open>Lines 156 to 168: the model directory, on disk or in memory.\<close>

definition unpack_model ::
  "worker_env \<Rightarrow> worker \<Rightarrow> bytes \<Rightarrow> filesystem \<Rightarrow> model_dir fs_result" where
  "unpack_model env w model fs =
     (if self_saved_on_disk w then
        (case (if \<not> os_path_exists fs (self_secured_dir w)
               then atomic fs (os_makedirs fs (self_secured_dir w)) else (Inr (), fs)) of
           (Inl e, fs1) \<Rightarrow> (Inl e, fs1)
         | (Inr _, fs1) \<Rightarrow>
             (case zip_members env model of
                Inl e \<Rightarrow> (Inl e, fs1)
              | Inr members \<Rightarrow>
                  (case for_each (extract_member (self_secured_dir w)) members fs1 of
                     (Inl e, fs2) \<Rightarrow> (Inl e, fs2)
                   | (Inr _, fs2) \<Rightarrow> (Inr (OnDisk (self_secured_dir w)), fs2))))
      else
        (case zip_members env model of
           Inl e \<Rightarrow> (Inl e, fs)
         | Inr members \<Rightarrow> (Inr (InMemory (dict_of_members members)), fs)))"

text \<open>Lines 142 to 154: the model file, decrypted when \<^verbatim>\<open>model_decryption\<close> is set.\<close>

definition read_model :: "worker_env \<Rightarrow> worker \<Rightarrow> filesystem \<Rightarrow> pyerror + bytes" where
  "read_model env w fs =
     (case read_file fs (self_model_file w) of
        Inl e \<Rightarrow> Inl e
      | Inr model \<Rightarrow>
          if self_model_decryption w then
            (case read_file fs (self_decryption_key w) of
               Inl e \<Rightarrow> Inl e
             | Inr key \<Rightarrow> decrypt_mar (aes env) key model)
          else Inr model)"

text \<open>The state a Load leaves behind: the worker (its metrics cache gets the model name)
  and the file system.\<close>

type_synonym worker_state = "worker \<times> filesystem"

text \<open>Lines 115 to 185: the body of the \<^verbatim>\<open>try\<close> of \<^verbatim>\<open>load_model\<close>. Subscripting a
  message that is not a Load message raises \<^verbatim>\<open>TypeError\<close>.\<close>

definition load_model_body ::
  "worker_env \<Rightarrow> message \<Rightarrow> worker_state \<Rightarrow> (service \<times> string, worker_state) result" where
  "load_model_body env msg st =
     (case st of (w, fs) \<Rightarrow>
       (case msg of
          PredictMsg _ \<Rightarrow> (Inl (TypeError ''byte indices must be integers or slices, not str''), st)
        | LoadMsg load_model_request \<Rightarrow>
            (let model_name = req_modelName load_model_request;
                 handler = (if req_handler load_model_request \<noteq> []
                            then Some (req_handler load_model_request) else None);
                 envelope = (case req_envelope load_model_request of
                               None \<Rightarrow> None
                             | Some e \<Rightarrow> if 0 < length e then Some e else None);
                 batch_size = req_batchSize load_model_request;
                 gpu = req_gpu load_model_request;
                 limit_max_image_pixels =
                   (case req_limitMaxImagePixels load_model_request of
                      None \<Rightarrow> True
                    | Some b \<Rightarrow> b)
             in case read_model env w fs of
                  Inl e \<Rightarrow> (Inl e, st)
                | Inr model \<Rightarrow>
                    (case unpack_model env w model fs of
                       (Inl e, fs1) \<Rightarrow> (Inl e, (w, fs1))
                     | (Inr model_dir, fs1) \<Rightarrow>
                         (let w1 = w\<lparr> self_metrics_cache :=
                                   (self_metrics_cache w)\<lparr> mc_model_name := Some model_name \<rparr> \<rparr>
                          in case load (loader_env env) fs1 model_name model_dir handler gpu
                                    batch_size envelope limit_max_image_pixels
                                    (self_metrics_cache w1) of
                               Inl e \<Rightarrow> (Inl e, (w1, fs1))
                             | Inr service \<Rightarrow>
                                 (Inr (service, ''loaded model '' @ model_name), (w1, fs1)))))))"

text \<open>\<^verbatim>\<open>load_model\<close>: the \<^verbatim>\<open>try\<close> with its one handler, \<^verbatim>\<open>except MemoryError\<close>.\<close>

definition load_model ::
  "worker_env \<Rightarrow> message \<Rightarrow> worker_state
    \<Rightarrow> (service option \<times> string \<times> int, worker_state) result" where
  "load_model env msg st =
     (case load_model_body env msg st of
        (Inr (service, result), st') \<Rightarrow> (Inr (Some service, result, 200), st')
      | (Inl e, st') \<Rightarrow>
          if e = MemoryError then (Inr (None, ''System out of memory'', 507), st')
          else (Inl e, st'))"

subsection \<open>The command loop\<close>

text \<open>How a run ends as far as its input reaches: with an exception, or waiting in a
  blocking call for input that the given input does not hold.\<close>

datatype outcome = Raised pyerror | Blocked

text \<open>The \<^verbatim>\<open>while True\<close> of \<^verbatim>\<open>handle_connection\<close> over the frames that arrive on the
  connection, with the responses it sends. An element \<open>Inl e\<close> stands for \<^verbatim>\<open>retrieve_msg\<close>
  raising \<open>e\<close>. \<^verbatim>\<open>service.predict\<close> on \<^verbatim>\<open>None\<close> raises \<^verbatim>\<open>AttributeError\<close>. The loop
  has no \<^verbatim>\<open>break\<close> and no \<^verbatim>\<open>return\<close>. \<^verbatim>\<open>sendall\<close> is taken to succeed. The profiler
  calls under \<^verbatim>\<open>BENCHMARK\<close> do not touch the protocol and are left out.\<close>

fun handle_loop ::
  "worker_env \<Rightarrow> service option \<Rightarrow> (pyerror + frame) list \<Rightarrow> worker_state
    \<Rightarrow> response list \<times> outcome \<times> worker_state" where
  "handle_loop env service [] st = ([], Blocked, st)"
| "handle_loop env service (Inl e # rest) st = ([], Raised e, st)"
| "handle_loop env service (Inr (cmd, msg) # rest) st =
     (if cmd = ''I'' then
        (case service of
           None \<Rightarrow>
             ([], Raised (AttributeError ''NoneType object has no attribute predict''), st)
         | Some s \<Rightarrow>
             (case service_predict env s msg of
                Inl e \<Rightarrow> ([], Raised e, st)
              | Inr resp \<Rightarrow>
                  (case handle_loop env service rest st of
                     (sent, r) \<Rightarrow> (PredictResponse resp # sent, r))))
      else if cmd = ''L'' then
        (case load_model env msg st of
           (Inl e, st') \<Rightarrow> ([], Raised e, st')
         | (Inr (service', result, code), st') \<Rightarrow>
             if code \<noteq> 200 then
               ([LoadModelResponse code result],
                Raised (RuntimeError (str_int code @ '' - '' @ result)), st')
             else
               (case handle_loop env service' rest st' of
                  (sent, r) \<Rightarrow> (LoadModelResponse code result # sent, r)))
      else ([], Raised (ValueError (''Received unknown command: '' @ cmd)), st))"

definition handle_connection ::
  "worker_env \<Rightarrow> (pyerror + frame) list \<Rightarrow> worker_state
    \<Rightarrow> response list \<times> outcome \<times> worker_state" where
  "handle_connection env frames st = handle_loop env None frames st"

subsection \<open>Registration and the serving loop\<close>

text \<open>The network as the worker meets it: what the socket set-up of lines 222 to 232
  raises, if anything; the outcomes of the successive \<^verbatim>\<open>requests.put\<close> calls; and what
  \<^verbatim>\<open>accept\<close> returns, the frames of the accepted connection or an exception such as the
  accept timeout.\<close>

datatype put_outcome = Response int | PutRaises pyerror

record network =
  net_setup :: "pyerror option"
  net_puts :: "put_outcome list"
  net_accept :: "pyerror + (pyerror + frame) list"

text \<open>What an observer sees of the worker: registration calls (the URL, and whether
  certificates are verified), printed lines, sleeps in seconds, the call of \<^verbatim>\<open>accept\<close>,
  and the responses sent.\<close>

datatype event = Put string bool | Print string | Sleep nat | Accept | Send response

text \<open>The string concatenation of lines 240 and 243 raises \<^verbatim>\<open>TypeError\<close> unless all
  five attributes are strings.\<close>

definition registration_url :: "string \<Rightarrow> worker \<Rightarrow> pyerror + string" where
  "registration_url scheme w =
     (case (self_frontend_ip w, self_frontend_port w, self_model_name w, self_host w,
            self_port w) of
        (PyStr ip, PyStr fport, PyStr name, PyStr host, PyStr port) \<Rightarrow>
          Inr (scheme @ ip @ '':'' @ fport @ ''/models/'' @ name @ ''?IP='' @ host
               @ ''&PORT='' @ port)
      | _ \<Rightarrow> Inl (TypeError ''can only concatenate str to str''))"

datatype registration = Registered | RegistrationRaised pyerror | RegistrationPending

text \<open>Lines 238 to 248: the inner \<^verbatim>\<open>while True\<close>. Only \<^verbatim>\<open>ConnectionError\<close> is caught;
  it is answered by a printed line, a sleep of 30 seconds and another round. A response
  of any status ends the loop, after one more call over HTTPS when the status of the first
  is not 2xx. The list holds the outcomes of the calls still to come; when it runs out the
  worker is waiting for a call to return.\<close>

fun register :: "worker \<Rightarrow> put_outcome list \<Rightarrow> event list \<times> registration" where
  "register w [] =
     (case registration_url ''http://'' w of
        Inl e \<Rightarrow> ([], RegistrationRaised e)
      | Inr url \<Rightarrow> ([Put url True], RegistrationPending))"
| "register w (r # rs) =
     (case registration_url ''http://'' w of
        Inl e \<Rightarrow> ([], RegistrationRaised e)
      | Inr url \<Rightarrow>
          (case r of
             PutRaises e \<Rightarrow>
               if e = ConnectionError then
                 (case register w rs of
                    (t, res) \<Rightarrow>
                      (Put url True # Print ''Frontend is not ready. Retry after 30s.''
                         # Sleep 30 # t, res))
               else ([Put url True], RegistrationRaised e)
           | Response status_code \<Rightarrow>
               if status_code < 200 \<or> status_code \<ge> 300 then
                 (case registration_url ''https://'' w of
                    Inl e \<Rightarrow> ([Put url True], RegistrationRaised e)
                  | Inr url2 \<Rightarrow>
                      (case rs of
                         [] \<Rightarrow> ([Put url True, Put url2 False], RegistrationPending)
                       | PutRaises e # rs2 \<Rightarrow>
                           if e = ConnectionError then
                             (case register w rs2 of
                                (t, res) \<Rightarrow>
                                  (Put url True # Put url2 False
                                     # Print ''Frontend is not ready. Retry after 30s.''
                                     # Sleep 30 # t, res))
                           else ([Put url True, Put url2 False], RegistrationRaised e)
                       | Response _ # rs2 \<Rightarrow> ([Put url True, Put url2 False], Registered)))
               else ([Put url True], Registered)))"

text \<open>\<^verbatim>\<open>run_server\<close>. \<^verbatim>\<open>handle_connection\<close> never returns, so the outer \<^verbatim>\<open>while True\<close>
  gets through its body at most once: registration, \<^verbatim>\<open>accept\<close>, the command loop.\<close>

definition run_server ::
  "worker_env \<Rightarrow> network \<Rightarrow> worker_state \<Rightarrow> event list \<times> outcome \<times> worker_state" where
  "run_server env net st =
     (case net_setup net of
        Some e \<Rightarrow> ([], Raised e, st)
      | None \<Rightarrow>
          (case register (fst st) (net_puts net) of
             (t, RegistrationRaised e) \<Rightarrow> (t, Raised e, st)
           | (t, RegistrationPending) \<Rightarrow> (t, Blocked, st)
           | (t, Registered) \<Rightarrow>
               (case net_accept net of
                  Inl e \<Rightarrow> (t @ [Accept], Raised e, st)
                | Inr frames \<Rightarrow>
                    (case handle_connection env frames st of
                       (sent, r, st') \<Rightarrow> (t @ [Accept] @ map Send sent, r, st')))))"

text \<open>The main block around \<^verbatim>\<open>run_server\<close>: every exception is logged and the process
  ends with \<^verbatim>\<open>sys.exit(1)\<close>.\<close>

datatype process = Exited int | Running

definition worker_process :: "outcome \<Rightarrow> process" where
  "worker_process r = (case r of Raised _ \<Rightarrow> Exited 1 | Blocked \<Rightarrow> Running)"

section \<open>Properties of traces\<close>

text \<open>The registration backoff as the specification words it: the worker waits at least
  the backoff interval between attempts. An attempt is a registration call over HTTP (the
  call that verifies certificates), with at most one call over HTTPS right after it, before
  any sleep. \<open>rested\<close> says whether a sleep of at least 30 seconds has passed since the
  last call, or no call has been made yet; \<open>fallback\<close> says whether the last call was the
  HTTP call of an attempt and nothing but printing has happened since.\<close>

fun backoff_respected :: "bool \<Rightarrow> bool \<Rightarrow> event list \<Rightarrow> bool" where
  "backoff_respected rested fallback [] = True"
| "backoff_respected rested fallback (Put url verify # t) =
     (if verify then rested \<and> backoff_respected False True t
      else fallback \<and> backoff_respected False False t)"
| "backoff_respected rested fallback (Sleep n # t) =
     backoff_respected (rested \<or> 30 \<le> n) False t"
| "backoff_respected rested fallback (Print s # t) = backoff_respected rested fallback t"
| "backoff_respected rested fallback (Accept # t) = backoff_respected rested fallback t"
| "backoff_respected rested fallback (Send r # t) = backoff_respected rested fallback t"

text \<open>What holds of every run of the registration loop: it does not accept, it respects
  the backoff, and it ends registered only when some call was answered.\<close>

definition register_ok :: "put_outcome list \<Rightarrow> event list \<times> registration \<Rightarrow> bool" where
  "register_ok puts r =
     (Accept \<notin> set (fst r) \<and> backoff_respected True False (fst r)
      \<and> (snd r = Registered \<longrightarrow> (\<exists>c. Response c \<in> set puts)))"

section \<open>Sample inputs\<close>

text \<open>Concrete values on which the results below are run. The handler module \<^verbatim>\<open>h\<close>
  has a function \<^verbatim>\<open>handle\<close> and no class; the module \<^verbatim>\<open>cls\<close> has one class and no
  function; the module \<^verbatim>\<open>both\<close> has a function \<^verbatim>\<open>handle\<close> and one class; the module
  \<^verbatim>\<open>bare\<close> has neither. The archive \<^verbatim>\<open>big.mar\<close> is too large to
  unpack in memory, and there is no archive \<^verbatim>\<open>none.mar\<close>.\<close>

definition example_handle :: entry_fn where
  "example_handle data ctx = Inr (case data of None \<Rightarrow> [] | Some b \<Rightarrow> rev b)"

definition example_module :: pymodule where
  "example_module =
     \<lparr> mod_name = ''h'',
       mod_attrs = (\<lambda>n. if n = ''handle'' then Some example_handle else None) \<rparr>"

definition class_module :: pymodule where
  "class_module = \<lparr> mod_name = ''cls'', mod_attrs = (\<lambda>n. None) \<rparr>"

definition echo_handle :: entry_fn where
  "echo_handle data ctx = Inr (case data of None \<Rightarrow> [] | Some b \<Rightarrow> b)"

definition both_module :: pymodule where
  "both_module =
     \<lparr> mod_name = ''both'',
       mod_attrs = (\<lambda>n. if n = ''handle'' then Some echo_handle else None) \<rparr>"

definition bare_module :: pymodule where
  "bare_module = \<lparr> mod_name = ''bare'', mod_attrs = (\<lambda>n. None) \<rparr>"

definition example_initialize :: initialize_fn where
  "example_initialize ctx = Inr ()"

definition example_class :: pyclass where
  "example_class =
     \<lparr> cls_name = ''Handler'',
       cls_new = (\<lambda>args. Inr \<lparr> inst_handle = Some example_handle,
                                inst_initialize = Some example_initialize \<rparr>) \<rparr>"

definition example_loader_env :: py_env where
  "example_loader_env =
     \<lparr> import_module =
         (\<lambda>n. if n = ''h'' then Inr example_module
               else if n = ''cls'' then Inr class_module
               else if n = ''both'' then Inr both_module
               else if n = ''bare'' then Inr bare_module
               else Inl (ImportError n)),
       exec_module =
         (\<lambda>n src. if n = ''h'' then Inr example_module
                   else if n = ''cls'' then Inr class_module
                   else Inl (ImportError n)),
       import_envelope = (\<lambda>n. Inl (ImportError n)),
       list_classes_from_module =
         (\<lambda>m. case m of
                 Module md \<Rightarrow>
                   Inr (if mod_name md = ''cls'' \<or> mod_name md = ''both''
                        then [example_class] else [])
               | ModuleTuple _ _ \<Rightarrow> Inl (AttributeError ''__name__'')),
       json_loads = (\<lambda>b. if b = ''{}'' then Inr (JObj []) else Inl (ValueError ''JSON'')) \<rparr>"

definition example_env :: worker_env where
  "example_env =
     \<lparr> loader_env = example_loader_env,
       aes = \<lparr> aes_encrypt_block = (\<lambda>k b. rev b), aes_decrypt_block = (\<lambda>k b. rev b) \<rparr>,
       zip_members =
         (\<lambda>b. if b = ''PK'' then Inr [(''MAR-INF/MANIFEST.json'', ''{}''), (''h.py'', ''src'')]
               else if b = ''PKBIG'' then Inl MemoryError
               else Inl (OtherError ''BadZipFile'')),
       service_predict =
         (\<lambda>s m. case m of
                   PredictMsg b \<Rightarrow> svc_entry_point s (Some b) (svc_context s)
                 | LoadMsg _ \<Rightarrow> Inl (TypeError ''payload'')) \<rparr>"

definition example_metrics :: metrics_cache where
  "example_metrics = \<lparr> mc_config_file_path = None, mc_model_name = None \<rparr>"

definition example_worker :: worker where
  "example_worker =
     \<lparr> self_frontend_ip = PyStr ''10.0.0.1'', self_frontend_port = PyStr ''8081'',
       self_model_name = PyStr ''m1'', self_host = PyStr ''10.0.0.2'',
       self_port = PyStr ''9000'', self_model_file = ''/models/m1.mar'',
       self_model_decryption = False, self_decryption_key = ''/keys/k'',
       self_saved_on_disk = False, self_secured_dir = ''/secure'',
       self_metrics_cache = example_metrics \<rparr>"



definition example_fs :: filesystem where
  "example_fs =
     [(''/models'', Dir), (''/models/m1.mar'', File ''PK''),
      (''/models/big.mar'', File ''PKBIG''), (''/srv'', Dir), (''/srv/m1'', Dir),
      (''/srv/m1/h.py'', File ''src'')]"


text \<open>A frontend that is down at the first registration call and answers 200 at the
  second, one that is down at both calls made so far, and one that answers 500 to both the
  HTTP and the HTTPS call; each would then connect and send a Predict command.\<close>

definition late_frontend :: network where
  "late_frontend =
     \<lparr> net_setup = None, net_puts = [PutRaises ConnectionError, Response 200],
       net_accept = Inr [Inr (''I'', PredictMsg ''abc'')] \<rparr>"

definition down_frontend :: network where
  "down_frontend =
     \<lparr> net_setup = None, net_puts = [PutRaises ConnectionError, PutRaises ConnectionError],
       net_accept = Inr [Inr (''I'', PredictMsg ''abc'')] \<rparr>"

definition refusing_frontend :: network where
  "refusing_frontend =
     \<lparr> net_setup = None, net_puts = [Response 500, Response 500],
       net_accept = Inr [Inr (''I'', PredictMsg ''abc'')] \<rparr>"


text \<open>A staging area and an archiver library: artifacts under \<^verbatim>\<open>/data\<close>, a staged model
  under \<^verbatim>\<open>/tmp/m\<close>, an export directory \<^verbatim>\<open>/out\<close>.\<close>

definition staging_fs :: filesystem where
  "staging_fs =
     [(''/tmp'', Dir), (''/data'', Dir), (''/data/enc'', Dir),
      (''/data/enc/w.bin'', File ''x''), (''/data/k.bin'', File ''k''), (''/out'', Dir)]"

definition staged_fs :: filesystem where
  "staged_fs =
     [(''/tmp'', Dir), (''/tmp/m'', Dir), (''/tmp/m/encrypted_files'', Dir),
      (''/tmp/m/model.pt'', File ''w''), (''/out'', Dir), (''/keys'', Dir),
      (''/keys/k'', File ''0123456789abcdef'')]"

definition example_lib :: archiver_lib where
  "example_lib =
     \<lparr> tar_gz_bytes = (\<lambda>es. concat (map (\<lambda>e. fst e @ ''='' @ snd e @ '';'') es)),
       tar_gz_partial = (\<lambda>es. []),
       zip_bytes = (\<lambda>es. concat (map (\<lambda>e. fst e @ ''='' @ snd e @ '';'') es)),
       os_path_relpath = (\<lambda>p start. drop (length start + 1) p),
       encryption_is_path = (\<lambda>p. True),
       decrypt_buffer = (\<lambda>k b. Inr b) \<rparr>"

section \<open>Export paths: results\<close>

lemma os_path_join_relative:
  assumes "a \<noteq> []" and "\<not> suffix ''/'' a" and "\<not> prefix ''/'' b"
  shows "os_path_join a b = a @ ''/'' @ b"
  using assms by (simp add: os_path_join_def)

lemma model_name_matches_not_absolute:
  assumes "model_name_matches n"
  shows "\<not> prefix ''/'' (n @ e)"
  using assms by (cases n) (auto simp: model_name_matches_def is_alnum_def)

lemma os_path_join_inj:
  assumes "\<not> prefix ''/'' x" and "\<not> prefix ''/'' y"
    and "os_path_join d x = os_path_join d y"
  shows "x = y"
  using assms by (auto simp: os_path_join_def split: if_splits)

text \<open>C6, as the code has it. For the three tags of \<^verbatim>\<open>archiving_options\<close>, an export
  directory that is not empty and does not end with a slash, and a model name that does not
  start with a slash, \<^verbatim>\<open>get_archive_export_path\<close> returns the export directory, a slash, the
  model name and the extension: \<^verbatim>\<open>.tar.gz\<close> for \<^verbatim>\<open>tgz\<close>, nothing for \<^verbatim>\<open>no-archive\<close>,
  \<^verbatim>\<open>.mar\<close> for \<^verbatim>\<open>default\<close>.\<close>

theorem get_archive_export_path_known_tags:
  assumes "archive_format = ''tgz'' \<or> archive_format = ''no-archive''
             \<or> archive_format = ''default''"
    and "export_dir \<noteq> []" and "\<not> suffix ''/'' export_dir"
    and "\<not> prefix ''/'' model_name"
  shows "get_archive_export_path export_dir model_name archive_format =
           spec_resolveExportPath export_dir model_name archive_format"
proof -
  let ?e = "format_value (map_of archiving_options archive_format)"
  have ext: "?e = spec_ext archive_format"
    using assms(1) by (auto simp: archiving_options_def format_value_def spec_ext_def)
  have "\<not> prefix ''/'' (model_name @ ?e)"
  proof (cases model_name)
    case Nil
    then show ?thesis
      using assms(1) by (auto simp: archiving_options_def format_value_def)
  next
    case (Cons c cs)
    then show ?thesis using assms(4) by simp
  qed
  then have "os_path_join export_dir (model_name @ ?e) = export_dir @ ''/'' @ model_name @ ?e"
    using assms(2,3) by (simp add: os_path_join_relative)
  then show ?thesis
    by (simp add: get_archive_export_path_def spec_resolveExportPath_def ext)
qed

theorem get_archive_export_path_known_tags_witness:
  "(''tgz'' = ''tgz'' \<or> ''tgz'' = ''no-archive'' \<or> ''tgz'' = ''default'')
   \<and> ''/models'' \<noteq> [] \<and> \<not> suffix ''/'' ''/models'' \<and> \<not> prefix ''/'' ''resnet''
   \<and> get_archive_export_path ''/models'' ''resnet'' ''tgz'' = ''/models/resnet.tar.gz''"
proof -
  have "get_archive_export_path ''/models'' ''resnet'' ''tgz''
          = spec_resolveExportPath ''/models'' ''resnet'' ''tgz''"
    by (rule get_archive_export_path_known_tags) (simp_all add: suffix_def)
  then show ?thesis
    by (simp add: spec_resolveExportPath_def spec_ext_def suffix_def)
qed

text \<open>C6, as the specification states it, fails at the tag \<^verbatim>\<open>zip\<close>, which is not a key
  of \<^verbatim>\<open>archiving_options\<close> (the extension becomes the text \<^verbatim>\<open>None\<close>), and at an export
  directory that already ends with a slash (no second slash is added).\<close>

theorem get_archive_export_path_counterexample:
  "get_archive_export_path ''out'' ''m'' ''zip'' = ''out/mNone''
   \<and> spec_resolveExportPath ''out'' ''m'' ''zip'' = ''out/m.mar''
   \<and> get_archive_export_path ''out/'' ''m'' ''default'' = ''out/m.mar''
   \<and> spec_resolveExportPath ''out/'' ''m'' ''default'' = ''out//m.mar''"
  by (simp add: get_archive_export_path_def spec_resolveExportPath_def spec_ext_def
      os_path_join_def archiving_options_def format_value_def suffix_def)

lemma ext_known:
  "format_value (map_of archiving_options ''tgz'') = ''.tar.gz''"
  "format_value (map_of archiving_options ''no-archive'') = []"
  "format_value (map_of archiving_options ''default'') = ''.mar''"
  by (simp_all add: archiving_options_def format_value_def)

lemma export_path_eq_iff:
  assumes "check_model_name_regex_or_exit n1 = Inr ()"
    and "check_model_name_regex_or_exit n2 = Inr ()"
  shows "get_archive_export_path d n1 f1 = get_archive_export_path d n2 f2 \<longleftrightarrow>
           n1 @ format_value (map_of archiving_options f1)
             = n2 @ format_value (map_of archiving_options f2)"
proof -
  have m1: "model_name_matches n1" and m2: "model_name_matches n2"
    using assms by (auto simp: check_model_name_regex_or_exit_def split: if_splits)
  show ?thesis
    using os_path_join_inj [OF model_name_matches_not_absolute [OF m1]
        model_name_matches_not_absolute [OF m2]]
    unfolding get_archive_export_path_def by auto
qed

lemma mar_not_targz: "n1 @ ''.mar'' \<noteq> n2 @ ''.tar.gz''"
proof
  assume "n1 @ ''.mar'' = n2 @ ''.tar.gz''"
  then have "last (n1 @ ''.mar'') = last (n2 @ ''.tar.gz'')" by simp
  then show False by simp
qed

text \<open>C7, as the code has it. For a fixed export directory, model names that pass
  \<^verbatim>\<open>check_model_name_regex_or_exit\<close> and two distinct (name, tag) pairs: under the same
  tag the paths differ; for tags among \<^verbatim>\<open>tgz\<close>, \<^verbatim>\<open>no-archive\<close> and \<^verbatim>\<open>default\<close> the
  paths are equal exactly when one pair has the tag \<^verbatim>\<open>no-archive\<close> and its name is the
  other pair's name followed by the other tag's extension; so the paths differ whenever no
  name ends with \<^verbatim>\<open>.tar.gz\<close> or \<^verbatim>\<open>.mar\<close>.\<close>

theorem get_archive_export_path_collisions:
  assumes "check_model_name_regex_or_exit n1 = Inr ()"
    and "check_model_name_regex_or_exit n2 = Inr ()"
    and "(n1, f1) \<noteq> (n2, f2)"
  shows "(f1 = f2 \<longrightarrow>
           get_archive_export_path d n1 f1 \<noteq> get_archive_export_path d n2 f2)
       \<and> (f1 \<in> {''tgz'', ''no-archive'', ''default''}
            \<and> f2 \<in> {''tgz'', ''no-archive'', ''default''} \<longrightarrow>
           (get_archive_export_path d n1 f1 = get_archive_export_path d n2 f2 \<longleftrightarrow>
              f1 = ''no-archive'' \<and> f2 = ''tgz'' \<and> n1 = n2 @ ''.tar.gz''
            \<or> f1 = ''no-archive'' \<and> f2 = ''default'' \<and> n1 = n2 @ ''.mar''
            \<or> f2 = ''no-archive'' \<and> f1 = ''tgz'' \<and> n2 = n1 @ ''.tar.gz''
            \<or> f2 = ''no-archive'' \<and> f1 = ''default'' \<and> n2 = n1 @ ''.mar''))
       \<and> (f1 \<in> {''tgz'', ''no-archive'', ''default''}
            \<and> f2 \<in> {''tgz'', ''no-archive'', ''default''}
            \<and> \<not> suffix ''.tar.gz'' n1 \<and> \<not> suffix ''.mar'' n1
            \<and> \<not> suffix ''.tar.gz'' n2 \<and> \<not> suffix ''.mar'' n2 \<longrightarrow>
           get_archive_export_path d n1 f1 \<noteq> get_archive_export_path d n2 f2)"
proof -
  note eq = export_path_eq_iff [OF assms(1,2), of d]
  have same: "f1 = f2 \<longrightarrow>
           get_archive_export_path d n1 f1 \<noteq> get_archive_export_path d n2 f2"
    using assms(3) by (auto simp: eq)
  have iff: "get_archive_export_path d n1 f1 = get_archive_export_path d n2 f2 \<longleftrightarrow>
              f1 = ''no-archive'' \<and> f2 = ''tgz'' \<and> n1 = n2 @ ''.tar.gz''
            \<or> f1 = ''no-archive'' \<and> f2 = ''default'' \<and> n1 = n2 @ ''.mar''
            \<or> f2 = ''no-archive'' \<and> f1 = ''tgz'' \<and> n2 = n1 @ ''.tar.gz''
            \<or> f2 = ''no-archive'' \<and> f1 = ''default'' \<and> n2 = n1 @ ''.mar''"
    if k: "f1 \<in> {''tgz'', ''no-archive'', ''default''}
            \<and> f2 \<in> {''tgz'', ''no-archive'', ''default''}"
  proof -
    consider "f1 = ''tgz''" | "f1 = ''no-archive''" | "f1 = ''default''" using k by blast
    then show ?thesis
    proof cases
      case 1
      consider "f2 = ''tgz''" | "f2 = ''no-archive''" | "f2 = ''default''" using k by blast
      then show ?thesis
      proof cases
        case 1
        with \<open>f1 = ''tgz''\<close> assms(3) show ?thesis by (simp add: eq ext_known)
      next
        case 2
        with \<open>f1 = ''tgz''\<close> show ?thesis by (simp add: eq ext_known eq_commute)
      next
        case 3
        with \<open>f1 = ''tgz''\<close> mar_not_targz [of n2 n1] show ?thesis
          by (simp add: eq ext_known eq_commute)
      qed
    next
      case 2
      consider "f2 = ''tgz''" | "f2 = ''no-archive''" | "f2 = ''default''" using k by blast
      then show ?thesis
      proof cases
        case 1
        with \<open>f1 = ''no-archive''\<close> show ?thesis by (simp add: eq ext_known)
      next
        case 2
        with \<open>f1 = ''no-archive''\<close> assms(3) show ?thesis by (simp add: eq ext_known)
      next
        case 3
        with \<open>f1 = ''no-archive''\<close> show ?thesis by (simp add: eq ext_known)
      qed
    next
      case 3
      consider "f2 = ''tgz''" | "f2 = ''no-archive''" | "f2 = ''default''" using k by blast
      then show ?thesis
      proof cases
        case 1
        with \<open>f1 = ''default''\<close> mar_not_targz [of n1 n2] show ?thesis
          by (simp add: eq ext_known)
      next
        case 2
        with \<open>f1 = ''default''\<close> show ?thesis by (simp add: eq ext_known eq_commute)
      next
        case 3
        with \<open>f1 = ''default''\<close> assms(3) show ?thesis by (simp add: eq ext_known)
      qed
    qed
  qed
  have free: "get_archive_export_path d n1 f1 \<noteq> get_archive_export_path d n2 f2"
    if k: "f1 \<in> {''tgz'', ''no-archive'', ''default''}
            \<and> f2 \<in> {''tgz'', ''no-archive'', ''default''}
            \<and> \<not> suffix ''.tar.gz'' n1 \<and> \<not> suffix ''.mar'' n1
            \<and> \<not> suffix ''.tar.gz'' n2 \<and> \<not> suffix ''.mar'' n2"
  proof -
    have "n1 \<noteq> n2 @ ''.tar.gz''" "n1 \<noteq> n2 @ ''.mar''"
      "n2 \<noteq> n1 @ ''.tar.gz''" "n2 \<noteq> n1 @ ''.mar''"
      using k by (auto simp: suffix_def)
    then show ?thesis using iff k by blast
  qed
  from same iff free show ?thesis by blast
qed

theorem get_archive_export_path_collisions_witness:
  "check_model_name_regex_or_exit ''resnet'' = Inr ()
   \<and> check_model_name_regex_or_exit ''bert'' = Inr ()
   \<and> (''resnet'', ''tgz'') \<noteq> (''bert'', ''default'')
   \<and> ''tgz'' \<in> {''tgz'', ''no-archive'', ''default''}
   \<and> ''default'' \<in> {''tgz'', ''no-archive'', ''default''}
   \<and> \<not> suffix ''.tar.gz'' ''resnet'' \<and> \<not> suffix ''.mar'' ''resnet''
   \<and> \<not> suffix ''.tar.gz'' ''bert'' \<and> \<not> suffix ''.mar'' ''bert''
   \<and> get_archive_export_path ''/models'' ''resnet'' ''tgz''
       \<noteq> get_archive_export_path ''/models'' ''bert'' ''default''
   \<and> (''resnet'', ''tgz'') \<noteq> (''bert'', ''tgz'')
   \<and> get_archive_export_path ''/models'' ''resnet'' ''tgz''
       \<noteq> get_archive_export_path ''/models'' ''bert'' ''tgz''"
proof -
  have a: "check_model_name_regex_or_exit ''resnet'' = Inr ()"
    by (simp add: check_model_name_regex_or_exit_def model_name_matches_def is_alnum_def
        is_name_char_def)
  have b: "check_model_name_regex_or_exit ''bert'' = Inr ()"
    by (simp add: check_model_name_regex_or_exit_def model_name_matches_def is_alnum_def
        is_name_char_def)
  have sfx: "\<not> suffix ''.tar.gz'' ''resnet''" "\<not> suffix ''.mar'' ''resnet''"
    "\<not> suffix ''.tar.gz'' ''bert''" "\<not> suffix ''.mar'' ''bert''"
    by code_simp+
  have d1: "(''resnet'', ''tgz'') \<noteq> (''bert'', ''default'')" by simp
  have d2: "(''resnet'', ''tgz'') \<noteq> (''bert'', ''tgz'')" by simp
  have k: "''tgz'' \<in> {''tgz'', ''no-archive'', ''default''}"
    "''default'' \<in> {''tgz'', ''no-archive'', ''default''}" by simp_all
  have one: "get_archive_export_path ''/models'' ''resnet'' ''tgz''
       \<noteq> get_archive_export_path ''/models'' ''bert'' ''default''"
    using get_archive_export_path_collisions [OF a b d1, of "''/models''"] sfx k by blast
  have two: "get_archive_export_path ''/models'' ''resnet'' ''tgz''
       \<noteq> get_archive_export_path ''/models'' ''bert'' ''tgz''"
    using get_archive_export_path_collisions [OF a b d2, of "''/models''"] by blast
  from a b sfx d1 d2 k one two show ?thesis by blast
qed

text \<open>C7, as the specification states it, fails: the name \<^verbatim>\<open>m.tar.gz\<close> is valid, and the
  pairs (\<^verbatim>\<open>m.tar.gz\<close>, \<^verbatim>\<open>no-archive\<close>) and (\<^verbatim>\<open>m\<close>, \<^verbatim>\<open>tgz\<close>) get the same path.\<close>

theorem get_archive_export_path_injective_counterexample:
  "check_model_name_regex_or_exit ''m.tar.gz'' = Inr ()
   \<and> check_model_name_regex_or_exit ''m'' = Inr ()
   \<and> (''m.tar.gz'', ''no-archive'') \<noteq> (''m'', ''tgz'')
   \<and> get_archive_export_path ''/models'' ''m.tar.gz'' ''no-archive''
       = get_archive_export_path ''/models'' ''m'' ''tgz''"
  by (simp add: check_model_name_regex_or_exit_def model_name_matches_def is_alnum_def
      is_name_char_def get_archive_export_path_def os_path_join_def archiving_options_def
      format_value_def suffix_def)

section \<open>The worker: results\<close>















lemma late_frontend_registers:
  "register (fst (example_worker, example_fs)) (net_puts late_frontend) =
     ([Put ''http://10.0.0.1:8081/models/m1?IP=10.0.0.2&PORT=9000'' True,
       Print ''Frontend is not ready. Retry after 30s.'', Sleep 30,
       Put ''http://10.0.0.1:8081/models/m1?IP=10.0.0.2&PORT=9000'' True], Registered)"
  by code_simp

text \<open>C9. On an accepted connection whose first frame is a Predict command (tag
  \<^verbatim>\<open>I\<close>), \<^verbatim>\<open>handle_connection\<close> calls \<^verbatim>\<open>predict\<close> on \<^verbatim>\<open>None\<close>: it raises
  \<^verbatim>\<open>AttributeError\<close> and has sent nothing. \<^verbatim>\<open>run_server\<close> has no handler around it, so
  the exception leaves the serving loop with no response event after the accept, and the
  process exits.\<close>

theorem predict_before_load_raises:
  assumes "net_setup net = None"
    and "register (fst st) (net_puts net) = (t, Registered)"
    and "net_accept net = Inr (Inr (''I'', msg) # rest)"
  shows "handle_connection env (Inr (''I'', msg) # rest) st =
           ([], Raised (AttributeError ''NoneType object has no attribute predict''), st)
       \<and> run_server env net st =
           (t @ [Accept],
            Raised (AttributeError ''NoneType object has no attribute predict''), st)
       \<and> worker_process (fst (snd (run_server env net st))) = Exited 1"
  using assms by (simp add: handle_connection_def run_server_def worker_process_def)

theorem predict_before_load_raises_witness:
  "net_setup late_frontend = None
   \<and> snd (register example_worker (net_puts late_frontend)) = Registered
   \<and> net_accept late_frontend = Inr [Inr (''I'', PredictMsg ''abc'')]
   \<and> run_server example_env late_frontend (example_worker, example_fs) =
       ([Put ''http://10.0.0.1:8081/models/m1?IP=10.0.0.2&PORT=9000'' True,
         Print ''Frontend is not ready. Retry after 30s.'', Sleep 30,
         Put ''http://10.0.0.1:8081/models/m1?IP=10.0.0.2&PORT=9000'' True, Accept],
        Raised (AttributeError ''NoneType object has no attribute predict''),
        (example_worker, example_fs))"
proof -
  have a: "net_setup late_frontend = None" by (simp add: late_frontend_def)
  have c: "net_accept late_frontend = Inr (Inr (''I'', PredictMsg ''abc'') # [])"
    by (simp add: late_frontend_def)
  from predict_before_load_raises [OF a late_frontend_registers c, of example_env]
  show ?thesis using a c late_frontend_registers by simp
qed

lemma register_ok_retry:
  assumes "register_ok rs (register w rs)"
  shows "register_ok (PutRaises ConnectionError # rs)
           (case register w rs of
              (t, res) \<Rightarrow> (Put url True # Print s # Sleep 30 # t, res))"
  using assms by (cases "register w rs") (auto simp: register_ok_def)

lemma register_ok_retry2:
  assumes "register_ok rs (register w rs)"
  shows "register_ok (Response c # PutRaises ConnectionError # rs)
           (case register w rs of
              (t, res) \<Rightarrow> (Put url True # Put url2 False # Print s # Sleep 30 # t, res))"
  using assms by (cases "register w rs") (auto simp: register_ok_def)

lemma register_props: "register_ok puts (register w puts)"
proof (induction w puts rule: register.induct)
  case (1 w)
  then show ?case by (simp add: register_ok_def split: sum.splits)
next
  case (2 w r rs)
  show ?case
  proof (cases "registration_url ''http://'' w")
    case (Inl e)
    then show ?thesis by (simp add: register_ok_def)
  next
    case url: (Inr url)
    show ?thesis
    proof (cases r)
      case (PutRaises e)
      show ?thesis
      proof (cases "e = ConnectionError")
        case True
        have "register_ok rs (register w rs)"
          using "2.IH" url PutRaises True by blast
        then show ?thesis
          using url PutRaises True register_ok_retry by simp
      next
        case False
        then show ?thesis using url PutRaises by (simp add: register_ok_def)
      qed
    next
      case (Response code)
      show ?thesis
      proof (cases "code < 200 \<or> code \<ge> 300")
        case False
        then show ?thesis using url Response by (auto simp: register_ok_def)
      next
        case True
        show ?thesis
        proof (cases "registration_url ''https://'' w")
          case (Inl e)
          then show ?thesis using url Response True by (simp add: register_ok_def)
        next
          case url2: (Inr url2)
          show ?thesis
          proof (cases rs)
            case Nil
            then show ?thesis using url Response True url2 by (simp add: register_ok_def)
          next
            case (Cons r2 rs2)
            show ?thesis
            proof (cases r2)
              case r2: (Response c2)
              then show ?thesis
                using url Response True url2 Cons by (auto simp: register_ok_def)
            next
              case r2: (PutRaises e)
              show ?thesis
              proof (cases "e = ConnectionError")
                case ce: True
                have "register_ok rs2 (register w rs2)"
                  using "2.IH" url Response True url2 Cons r2 ce by blast
                then show ?thesis
                  using url Response True url2 Cons r2 ce register_ok_retry2 by simp
              next
                case False
                then show ?thesis
                  using url Response True url2 Cons r2 by (simp add: register_ok_def)
              qed
            qed
          qed
        qed
      qed
    qed
  qed
qed

lemma backoff_respected_append_quiet:
  "backoff_respected b f (t @ Accept # map Send sent) = backoff_respected b f t"
proof (induction t arbitrary: b f)
  case Nil
  show ?case by (induction sent) simp_all
next
  case (Cons e t)
  then show ?case by (cases e) simp_all
qed

lemma register_connection_error:
  assumes "registration_url ''http://'' w = Inr url"
  shows "register w (PutRaises ConnectionError # rs) =
           (Put url True # Print ''Frontend is not ready. Retry after 30s.'' # Sleep 30
              # fst (register w rs), snd (register w rs))"
  using assms by (simp add: case_prod_beta)

lemma register_fallback_connection_error:
  assumes "registration_url ''http://'' w = Inr url"
    and "registration_url ''https://'' w = Inr url2" and "c < 200 \<or> 300 \<le> c"
  shows "register w (Response c # PutRaises ConnectionError # rs) =
           (Put url True # Put url2 False
              # Print ''Frontend is not ready. Retry after 30s.'' # Sleep 30
              # fst (register w rs), snd (register w rs))"
  using assms by (auto simp: case_prod_beta)

text \<open>C4, as the code has it. In every run of the serving loop the worker calls
  \<^verbatim>\<open>accept\<close> only after some registration call was answered by the frontend: while every
  call fails with a connection error it never accepts. A call that fails with a connection
  error is followed by a sleep of 30 seconds and a new attempt, so the backoff is respected
  in every run. An answer with a 2xx status ends registration. An answer with any other
  status is followed at once by one call over HTTPS, and any answer to that call, 2xx or
  not, ends registration as well; only a connection error of that call leads to the sleep
  and a new attempt. Once registration has ended the worker calls \<^verbatim>\<open>accept\<close>.\<close>

theorem registration_precedes_accept:
  "(Accept \<in> set (fst (run_server env net st)) \<longrightarrow> (\<exists>c. Response c \<in> set (net_puts net)))
   \<and> (list_all (\<lambda>r. r = PutRaises ConnectionError) (net_puts net) \<longrightarrow>
         Accept \<notin> set (fst (run_server env net st)))
   \<and> backoff_respected True False (fst (run_server env net st))
   \<and> (net_setup net = None \<and> snd (register (fst st) (net_puts net)) = Registered \<longrightarrow>
         Accept \<in> set (fst (run_server env net st)))
   \<and> (\<forall>url. registration_url ''http://'' w = Inr url \<longrightarrow>
         register w (PutRaises ConnectionError # rs) =
           (Put url True # Print ''Frontend is not ready. Retry after 30s.'' # Sleep 30
              # fst (register w rs), snd (register w rs)))
   \<and> (\<forall>url c. registration_url ''http://'' w = Inr url \<and> 200 \<le> c \<and> c < 300 \<longrightarrow>
         register w (Response c # rs) = ([Put url True], Registered))
   \<and> (\<forall>url url2 c c2.
         registration_url ''http://'' w = Inr url \<and> registration_url ''https://'' w = Inr url2
         \<and> (c < 200 \<or> 300 \<le> c) \<longrightarrow>
           register w (Response c # Response c2 # rs) =
             ([Put url True, Put url2 False], Registered))
   \<and> (\<forall>url url2 c.
         registration_url ''http://'' w = Inr url \<and> registration_url ''https://'' w = Inr url2
         \<and> (c < 200 \<or> 300 \<le> c) \<longrightarrow>
           register w (Response c # PutRaises ConnectionError # rs) =
             (Put url True # Put url2 False
                # Print ''Frontend is not ready. Retry after 30s.'' # Sleep 30
                # fst (register w rs), snd (register w rs)))"
proof -
  obtain t res where r: "register (fst st) (net_puts net) = (t, res)"
    by (cases "register (fst st) (net_puts net)")
  have ok: "register_ok (net_puts net) (t, res)"
    using register_props [of "net_puts net" "fst st"] by (simp add: r)
  then have na: "Accept \<notin> set t" and bo: "backoff_respected True False t"
    and rs: "res = Registered \<Longrightarrow> \<exists>c. Response c \<in> set (net_puts net)"
    by (simp_all add: register_ok_def)
  have bo1: "backoff_respected True False (t @ [Accept])"
    using backoff_respected_append_quiet [of True False t "[]"] bo by simp
  have bo2: "backoff_respected True False (t @ Accept # map Send sent)" for sent
    using backoff_respected_append_quiet [of True False t sent] bo by simp
  have first: "(Accept \<in> set (fst (run_server env net st)) \<longrightarrow>
        (\<exists>c. Response c \<in> set (net_puts net)))
      \<and> backoff_respected True False (fst (run_server env net st))"
  proof (cases "net_setup net")
    case (Some e)
    then show ?thesis by (simp add: run_server_def)
  next
    case None
    show ?thesis
    proof (cases res)
      case Registered
      with rs have ex: "\<exists>c. Response c \<in> set (net_puts net)" by simp
      show ?thesis
        using None r Registered ex bo1 bo2
        by (auto simp: run_server_def split: sum.splits prod.splits)
    next
      case (RegistrationRaised e)
      then show ?thesis using None r na bo by (simp add: run_server_def)
    next
      case RegistrationPending
      then show ?thesis using None r na bo by (simp add: run_server_def)
    qed
  qed
  have down: "list_all (\<lambda>r. r = PutRaises ConnectionError) (net_puts net) \<longrightarrow>
         Accept \<notin> set (fst (run_server env net st))"
  proof
    assume all: "list_all (\<lambda>r. r = PutRaises ConnectionError) (net_puts net)"
    have "\<not> (\<exists>c. Response c \<in> set (net_puts net))"
      using all by (auto simp: list_all_iff)
    with first show "Accept \<notin> set (fst (run_server env net st))" by blast
  qed
  have goes: "net_setup net = None \<and> snd (register (fst st) (net_puts net)) = Registered \<longrightarrow>
         Accept \<in> set (fst (run_server env net st))"
    using r by (auto simp: run_server_def split: sum.splits prod.splits)
  have ok2: "\<forall>url c. registration_url ''http://'' w = Inr url \<and> 200 \<le> c \<and> c < 300 \<longrightarrow>
         register w (Response c # rs) = ([Put url True], Registered)"
    by auto
  have fb: "\<forall>url url2 c c2.
         registration_url ''http://'' w = Inr url \<and> registration_url ''https://'' w = Inr url2
         \<and> (c < 200 \<or> 300 \<le> c) \<longrightarrow>
           register w (Response c # Response c2 # rs) =
             ([Put url True, Put url2 False], Registered)"
    by auto
  from first down goes ok2 fb register_connection_error [of w _ rs]
    register_fallback_connection_error [of w _ _ _ rs]
  show ?thesis by (intro conjI allI impI) (blast | simp)+
qed

lemma late_run:
  "fst (run_server example_env late_frontend (example_worker, example_fs)) =
       [Put ''http://10.0.0.1:8081/models/m1?IP=10.0.0.2&PORT=9000'' True,
         Print ''Frontend is not ready. Retry after 30s.'', Sleep 30,
         Put ''http://10.0.0.1:8081/models/m1?IP=10.0.0.2&PORT=9000'' True, Accept]"
  by code_simp

lemma example_urls:
  "registration_url ''http://'' example_worker
     = Inr ''http://10.0.0.1:8081/models/m1?IP=10.0.0.2&PORT=9000''"
  "registration_url ''https://'' example_worker
     = Inr ''https://10.0.0.1:8081/models/m1?IP=10.0.0.2&PORT=9000''"
  by code_simp+

lemma down_puts:
  "list_all (\<lambda>r. r = PutRaises ConnectionError) (net_puts down_frontend)"
  by (simp add: down_frontend_def)

theorem registration_precedes_accept_witness:
  "Accept \<in> set (fst (run_server example_env late_frontend (example_worker, example_fs)))
   \<and> (\<exists>c. Response c \<in> set (net_puts late_frontend))
   \<and> backoff_respected True False
        (fst (run_server example_env late_frontend (example_worker, example_fs)))
   \<and> list_all (\<lambda>r. r = PutRaises ConnectionError) (net_puts down_frontend)
   \<and> Accept \<notin> set (fst (run_server example_env down_frontend (example_worker, example_fs)))
   \<and> registration_url ''http://'' example_worker
       = Inr ''http://10.0.0.1:8081/models/m1?IP=10.0.0.2&PORT=9000''
   \<and> registration_url ''https://'' example_worker
       = Inr ''https://10.0.0.1:8081/models/m1?IP=10.0.0.2&PORT=9000''
   \<and> register example_worker [Response 204] =
       ([Put ''http://10.0.0.1:8081/models/m1?IP=10.0.0.2&PORT=9000'' True], Registered)
   \<and> register example_worker [Response 500, Response 500] =
       ([Put ''http://10.0.0.1:8081/models/m1?IP=10.0.0.2&PORT=9000'' True,
         Put ''https://10.0.0.1:8081/models/m1?IP=10.0.0.2&PORT=9000'' False], Registered)
   \<and> register example_worker [PutRaises ConnectionError, Response 204] =
       ([Put ''http://10.0.0.1:8081/models/m1?IP=10.0.0.2&PORT=9000'' True,
         Print ''Frontend is not ready. Retry after 30s.'', Sleep 30,
         Put ''http://10.0.0.1:8081/models/m1?IP=10.0.0.2&PORT=9000'' True], Registered)
   \<and> register example_worker [Response 500, PutRaises ConnectionError, Response 204] =
       ([Put ''http://10.0.0.1:8081/models/m1?IP=10.0.0.2&PORT=9000'' True,
         Put ''https://10.0.0.1:8081/models/m1?IP=10.0.0.2&PORT=9000'' False,
         Print ''Frontend is not ready. Retry after 30s.'', Sleep 30,
         Put ''http://10.0.0.1:8081/models/m1?IP=10.0.0.2&PORT=9000'' True], Registered)
   \<and> net_setup refusing_frontend = None
   \<and> snd (register example_worker (net_puts refusing_frontend)) = Registered
   \<and> Accept \<in> set (fst (run_server example_env refusing_frontend
                          (example_worker, example_fs)))"
proof -
  note late = registration_precedes_accept
    [of example_env late_frontend "(example_worker, example_fs)" example_worker "[]"]
  note down = registration_precedes_accept
    [of example_env down_frontend "(example_worker, example_fs)" example_worker "[]"]
  note refusing = registration_precedes_accept
    [of example_env refusing_frontend "(example_worker, example_fs)" example_worker
        "[Response 204]"]
  have a: "Accept \<in> set (fst (run_server example_env late_frontend
      (example_worker, example_fs)))"
    by (simp add: late_run)
  have ex: "\<exists>c. Response c \<in> set (net_puts late_frontend)"
    using late a by blast
  have bo: "backoff_respected True False
        (fst (run_server example_env late_frontend (example_worker, example_fs)))"
    using late by blast
  have dn: "Accept \<notin> set (fst (run_server example_env down_frontend
      (example_worker, example_fs)))"
    using down down_puts by blast
  have r204: "register example_worker [Response 204] =
       ([Put ''http://10.0.0.1:8081/models/m1?IP=10.0.0.2&PORT=9000'' True], Registered)"
    using late example_urls(1) by simp
  have r500: "register example_worker [Response 500, Response 500] =
       ([Put ''http://10.0.0.1:8081/models/m1?IP=10.0.0.2&PORT=9000'' True,
         Put ''https://10.0.0.1:8081/models/m1?IP=10.0.0.2&PORT=9000'' False], Registered)"
    using late example_urls by simp
  have rce: "register example_worker [PutRaises ConnectionError, Response 204] =
       ([Put ''http://10.0.0.1:8081/models/m1?IP=10.0.0.2&PORT=9000'' True,
         Print ''Frontend is not ready. Retry after 30s.'', Sleep 30,
         Put ''http://10.0.0.1:8081/models/m1?IP=10.0.0.2&PORT=9000'' True], Registered)"
    using refusing example_urls(1) r204 by simp
  have rfce: "register example_worker [Response 500, PutRaises ConnectionError, Response 204] =
       ([Put ''http://10.0.0.1:8081/models/m1?IP=10.0.0.2&PORT=9000'' True,
         Put ''https://10.0.0.1:8081/models/m1?IP=10.0.0.2&PORT=9000'' False,
         Print ''Frontend is not ready. Retry after 30s.'', Sleep 30,
         Put ''http://10.0.0.1:8081/models/m1?IP=10.0.0.2&PORT=9000'' True], Registered)"
    using refusing example_urls r204 by simp
  have s: "net_setup refusing_frontend = None" by (simp add: refusing_frontend_def)
  have reg: "snd (register example_worker (net_puts refusing_frontend)) = Registered"
    using r500 by (simp add: refusing_frontend_def)
  have acc: "Accept \<in> set (fst (run_server example_env refusing_frontend
                          (example_worker, example_fs)))"
    using refusing s reg by simp
  from a ex bo down_puts dn example_urls r204 r500 rce rfce s reg acc show ?thesis
    by (intro conjI)
qed

text \<open>C4, as the specification states it, fails: a frontend that answers 500 to the HTTP
  call and 500 to the HTTPS call has not registered the worker, and the worker accepts a
  connection all the same.\<close>

theorem registration_counterexample:
  "net_puts refusing_frontend = [Response 500, Response 500]
   \<and> fst (run_server example_env refusing_frontend (example_worker, example_fs)) =
       [Put ''http://10.0.0.1:8081/models/m1?IP=10.0.0.2&PORT=9000'' True,
        Put ''https://10.0.0.1:8081/models/m1?IP=10.0.0.2&PORT=9000'' False, Accept]"
  by code_simp

section \<open>The handler resolver: results\<close>





lemma manifest_absent:
  "\<not> os_path_exists example_fs
       (os_path_join (os_path_join ''/srv/m1'' ''MAR-INF'') ''MANIFEST.json'')"
  by code_simp





lemma module_name_h: "handler_module_name ''h'' = ''h''"
  by code_simp

lemma function_name_plain:
  "handler_function_name ''cls'' = None" "handler_function_name ''bare'' = None"
  "handler_function_name ''h'' = None" "handler_function_name ''both'' = None"
  by (simp_all add: handler_function_name_def split_once_def)






lemma resolve_and_build_manifest:
  assumes "resolve_and_build env name d manifest module fn gpu bs envelope lim mc = Inr svc"
  shows "ctx_manifest (svc_context svc) = manifest"
  using assms
  by (auto simp: resolve_and_build_def Let_def Service_def split: sum.splits prod.splits)

text \<open>C10. A dictionary without the key \<^verbatim>\<open>MAR-INF/MANIFEST.json\<close> makes \<^verbatim>\<open>load\<close>
  raise \<^verbatim>\<open>KeyError\<close> at once, whatever the handler. A directory without that file does
  not: every service \<^verbatim>\<open>load\<close> returns for it carries the manifest \<^verbatim>\<open>None\<close>, and it
  does return one when the handler module is importable and offers a \<^verbatim>\<open>handle\<close>
  function that accepts the initialising call.\<close>

theorem load_missing_manifest_asymmetry:
  "(map_of d ''MAR-INF/MANIFEST.json'' = None \<longrightarrow>
      load env fs name (InMemory d) handler gpu bs envelope lim mc =
        Inl (KeyError ''MAR-INF/MANIFEST.json''))
   \<and> (\<forall>svc.
         \<not> os_path_exists fs (os_path_join (os_path_join p ''MAR-INF'') ''MANIFEST.json'')
         \<and> load env fs name (OnDisk p) handler gpu bs envelope lim mc = Inr svc \<longrightarrow>
           ctx_manifest (svc_context svc) = None)
   \<and> (\<forall>h m f r.
         \<not> os_path_exists fs (os_path_join (os_path_join p ''MAR-INF'') ''MANIFEST.json'')
         \<and> import_module env (handler_module_name h) = Inr m
         \<and> handler_function_name h = None
         \<and> mod_attrs m ''handle'' = Some f
         \<and> f None (svc_context (Service name (OnDisk p) None f gpu bs lim mc)) = Inr r \<longrightarrow>
           load env fs name (OnDisk p) (Some h) gpu bs None lim mc =
             Inr (Service name (OnDisk p) None f gpu bs lim mc))"
proof (intro conjI impI allI)
  assume "map_of d ''MAR-INF/MANIFEST.json'' = None"
  then show "load env fs name (InMemory d) handler gpu bs envelope lim mc =
        Inl (KeyError ''MAR-INF/MANIFEST.json'')"
    by (simp add: load_def load_manifest_def dict_read_def)
next
  fix svc
  assume a: "\<not> os_path_exists fs (os_path_join (os_path_join p ''MAR-INF'') ''MANIFEST.json'')
         \<and> load env fs name (OnDisk p) handler gpu bs envelope lim mc = Inr svc"
  then have "load_manifest env fs (OnDisk p) = Inr (None, OnDisk p)"
    by (simp add: load_manifest_def Let_def)
  with a show "ctx_manifest (svc_context svc) = None"
    by (auto simp: load_def split: sum.splits prod.splits dest: resolve_and_build_manifest)
next
  fix h m f r
  assume a: "\<not> os_path_exists fs (os_path_join (os_path_join p ''MAR-INF'') ''MANIFEST.json'')
         \<and> import_module env (handler_module_name h) = Inr m
         \<and> handler_function_name h = None
         \<and> mod_attrs m ''handle'' = Some f
         \<and> f None (svc_context (Service name (OnDisk p) None f gpu bs lim mc)) = Inr r"
  then have "load_manifest env fs (OnDisk p) = Inr (None, OnDisk p)"
    by (simp add: load_manifest_def Let_def)
  with a show "load env fs name (OnDisk p) (Some h) gpu bs None lim mc =
             Inr (Service name (OnDisk p) None f gpu bs lim mc)"
    by (simp add: load_def load_module_def load_handler_file_def resolve_and_build_def
        load_envelope_class_def module_getattr_def get_function_entry_point_def
        wrap_envelope_def Let_def)
qed

theorem load_missing_manifest_asymmetry_witness:
  "map_of [(''h.py'', ''src'')] ''MAR-INF/MANIFEST.json'' = None
   \<and> load example_loader_env example_fs ''m1'' (InMemory [(''h.py'', ''src'')]) (Some ''h.py'')
        None None None True example_metrics = Inl (KeyError ''MAR-INF/MANIFEST.json'')
   \<and> \<not> os_path_exists example_fs
         (os_path_join (os_path_join ''/srv/m1'' ''MAR-INF'') ''MANIFEST.json'')
   \<and> load example_loader_env example_fs ''m1'' (OnDisk ''/srv/m1'') (Some ''h'') None None
        None True example_metrics =
       Inr (Service ''m1'' (OnDisk ''/srv/m1'') None example_handle None None True
              example_metrics)
   \<and> ctx_manifest (svc_context (Service ''m1'' (OnDisk ''/srv/m1'') None example_handle None
        None True example_metrics)) = None"
proof -
  have k: "map_of [(''h.py'', ''src'')] ''MAR-INF/MANIFEST.json'' = None" by simp
  have imp: "import_module example_loader_env (handler_module_name ''h'') = Inr example_module"
    by (simp add: module_name_h example_loader_env_def)
  have att: "mod_attrs example_module ''handle'' = Some example_handle"
    by (simp add: example_module_def)
  have run: "example_handle None (svc_context (Service ''m1'' (OnDisk ''/srv/m1'') None
      example_handle None None True example_metrics)) = Inr []"
    by (simp add: example_handle_def)
  note t = load_missing_manifest_asymmetry
    [of "[(''h.py'', ''src'')]" example_loader_env example_fs "''m1''" "Some ''h.py''" None None
        None True example_metrics "''/srv/m1''"]
  have l1: "load example_loader_env example_fs ''m1'' (InMemory [(''h.py'', ''src'')])
      (Some ''h.py'') None None None True example_metrics
        = Inl (KeyError ''MAR-INF/MANIFEST.json'')"
    using t k by blast
  have l2: "load example_loader_env example_fs ''m1'' (OnDisk ''/srv/m1'') (Some ''h'') None
      None None True example_metrics =
       Inr (Service ''m1'' (OnDisk ''/srv/m1'') None example_handle None None True
              example_metrics)"
    using t manifest_absent imp function_name_plain(3) att run by blast
  show ?thesis
    using k l1 l2 manifest_absent by (simp add: Service_def)
qed

section \<open>The archive builder: results\<close>

lemma for_each_keeps_state:
  assumes "\<And>x st. snd (body x st) = st"
  shows "snd (for_each body xs st) = st"
proof (induction xs)
  case Nil
  show ?case by simp
next
  case (Cons x xs)
  obtain r where r: "body x st = (r, st)"
    using assms [of x st] by (cases "body x st") simp
  show ?case
    using Cons.IH by (cases r) (simp_all add: r)
qed

lemma archive_file_buffer_keeps_state:
  "snd (archive_file lib path None ''no-archive'' model_name decryption_key root f st) = st"
  by (cases st) (simp add: archive_file_def split: sum.splits prod.splits)

lemma archive_dir_buffer_keeps_state:
  "snd (archive_dir lib path None ''no-archive'' model_name decryption_key st) = st"
  unfolding archive_dir_def Let_def
  by (rule for_each_keeps_state)
     (simp add: case_prod_beta for_each_keeps_state archive_file_buffer_keeps_state)

text \<open>C5. \<^verbatim>\<open>archive\<close> called with \<^verbatim>\<open>model_encryption\<close> set and the directory format
  \<^verbatim>\<open>no-archive\<close> always ends with an exception and leaves the file system exactly as it
  found it: no file or directory, encrypted or not, is written for that request. The
  destination is then an in-memory buffer, and the first path operation on it raises
  \<^verbatim>\<open>TypeError\<close> before anything is copied.\<close>

theorem archive_encrypted_directory_raises:
  "\<exists>e. archive lib cipher export_file model_name model_path manifest ''no-archive'' True
          encryption_key decryption_key fs = (Inl e, fs)"
proof -
  obtain r where r: "archive_dir lib model_path None ''no-archive'' model_name decryption_key
      ([], fs) = (r, ([], fs))"
    using archive_dir_buffer_keeps_state [of lib model_path model_name decryption_key "([], fs)"]
    by (cases "archive_dir lib model_path None ''no-archive'' model_name decryption_key ([], fs)")
       simp
  show ?thesis
    by (cases r) (simp_all add: archive_def archive_no_archive_def r)
qed

theorem archive_encrypted_directory_raises_witness:
  "archive example_lib (aes example_env) ''/out'' ''m'' ''/tmp/m'' ''{}'' ''no-archive'' True
     (Some ''/keys/k'') None staged_fs
     = (Inl (TypeError ''os.path.join of a buffer''), staged_fs)
   \<and> fst (archive example_lib (aes example_env) ''/out'' ''m'' ''/tmp/m'' ''{}'' ''no-archive''
          False None None staged_fs) = Inr ()"
proof -
  have "fst (archive example_lib (aes example_env) ''/out'' ''m'' ''/tmp/m'' ''{}''
     ''no-archive'' True (Some ''/keys/k'') None staged_fs)
     = Inl (TypeError ''os.path.join of a buffer'')"
    by code_simp
  moreover have "fst (archive example_lib (aes example_env) ''/out'' ''m'' ''/tmp/m'' ''{}''
     ''no-archive'' False None None staged_fs) = Inr ()"
    by code_simp
  ultimately show ?thesis
    using archive_encrypted_directory_raises [of example_lib "aes example_env" "''/out''" "''m''"
      "''/tmp/m''" "''{}''" "Some ''/keys/k''" None staged_fs]
    by auto
qed

text \<open>What \<^verbatim>\<open>copy_artifacts\<close> does with one path of \<^verbatim>\<open>encrypted_files\<close>: a file is
  copied into the encrypted-staging directory; a directory other than the staging root
  raises \<^verbatim>\<open>NameError\<close>; anything else is an invalid artifact.\<close>

lemma copy_encrypted_file_cases:
  "copy_encrypted_file model_path encrypted_path file fs =
     (if os_path_isfile fs file then atomic fs (shutil_copy fs file encrypted_path)
      else if os_path_isdir fs file \<and> file \<noteq> model_path
        then (Inl (NameError ''encrpyted_path''), fs)
      else (Inl (ValueError (''Invalid extra file given '' @ file)), fs))"
  by (simp add: copy_encrypted_file_def)

text \<open>C8 on a concrete staging run. The artifact \<^verbatim>\<open>/data/enc\<close> is an existing
  directory: tagged \<^verbatim>\<open>encrypted_files\<close> it is not merged, \<^verbatim>\<open>copy_artifacts\<close> raises
  \<^verbatim>\<open>NameError\<close> for the misspelt name of line 188; tagged \<^verbatim>\<open>extra_files\<close>, the sibling
  branch, its content is merged into the staging root. A single file tagged
  \<^verbatim>\<open>encrypted_files\<close> is copied into the encrypted-staging directory, and a path that is
  neither raises \<^verbatim>\<open>ValueError\<close>, both as the claim says.\<close>

theorem copy_artifacts_encrypted_directory_NameError:
  "os_path_isdir staging_fs ''/data/enc''
   \<and> copy_artifacts ''/tmp'' ''m'' [(''encrypted_files'', Some ''/data/enc'')] staging_fs =
       (Inl (NameError ''encrpyted_path''),
        staging_fs @ [(''/tmp/m'', Dir), (''/tmp/m/encrypted_files'', Dir)])
   \<and> copy_artifacts ''/tmp'' ''m'' [(''extra_files'', Some ''/data/enc'')] staging_fs =
       (Inr ''/tmp/m'',
        staging_fs @ [(''/tmp/m'', Dir), (''/tmp/m/encrypted_files'', Dir),
                      (''/tmp/m/w.bin'', File ''x'')])
   \<and> copy_artifacts ''/tmp'' ''m'' [(''encrypted_files'', Some ''/data/k.bin'')] staging_fs =
       (Inr ''/tmp/m'',
        staging_fs @ [(''/tmp/m'', Dir), (''/tmp/m/encrypted_files'', Dir),
                      (''/tmp/m/encrypted_files/k.bin'', File ''k'')])
   \<and> copy_artifacts ''/tmp'' ''m'' [(''encrypted_files'', Some ''/data/nope'')] staging_fs =
       (Inl (ValueError ''Invalid extra file given /data/nope''),
        staging_fs @ [(''/tmp/m'', Dir), (''/tmp/m/encrypted_files'', Dir)])"
  by code_simp

section \<open>Whole-archive encryption: results\<close>

text \<open>The deterministic half of C3, for any block cipher whose decryption undoes its
  encryption on 16-byte blocks: what the worker's decryption path returns for the output
  of the archiver's encryption path under the same valid key is the plain text, for plain
  texts of every length. That a different key fails with high probability is a statement
  about AES and a distribution over keys, which this model does not hold.\<close>

lemma blocks_Nil: "blocks [] = []"
  by simp

lemma blocks_step: "data \<noteq> [] \<Longrightarrow> blocks data = take 16 data # blocks (drop 16 data)"
  by (subst blocks.simps) simp

declare blocks.simps [simp del]

lemma concat_blocks: "concat (blocks data) = data"
proof (induction data rule: blocks.induct)
  case (1 data)
  show ?case
  proof (cases "data = []")
    case True
    then show ?thesis by (simp add: blocks_Nil)
  next
    case False
    then show ?thesis using 1 by (simp add: blocks_step)
  qed
qed

lemma blocks_length:
  "length data mod 16 = 0 \<Longrightarrow> b \<in> set (blocks data) \<Longrightarrow> length b = 16"
proof (induction data rule: blocks.induct)
  case (1 data)
  show ?case
  proof (cases "data = []")
    case True
    then show ?thesis using 1 by (simp add: blocks_Nil)
  next
    case False
    have len: "16 \<le> length data"
      using False "1.prems"(1) by (cases "length data < 16") auto
    have "length (drop 16 data) mod 16 = 0"
      using "1.prems"(1) le_mod_geq [OF len] by simp
    then show ?thesis
      using 1 False len by (auto simp: blocks_step)
  qed
qed

lemma blocks_concat:
  assumes "\<And>b. b \<in> set bs \<Longrightarrow> length b = 16"
  shows "blocks (concat bs) = bs"
  using assms
proof (induction bs)
  case Nil
  show ?case by (simp add: blocks_Nil)
next
  case (Cons b bs)
  have "length b = 16" using Cons.prems by simp
  then have "b \<noteq> []" by auto
  then show ?case
    using Cons \<open>length b = 16\<close> by (simp add: blocks_step)
qed

lemma length_concat_16:
  assumes "\<And>b. b \<in> set bs \<Longrightarrow> length b = 16"
  shows "length (concat bs) mod 16 = 0"
  using assms by (induction bs) auto

lemma ecb_roundtrip:
  assumes key: "aes_key_ok k" and len: "length data mod 16 = 0"
    and inv: "\<And>b. length b = 16 \<Longrightarrow> aes_decrypt_block c k (aes_encrypt_block c k b) = b"
    and keep: "\<And>b. length b = 16 \<Longrightarrow> length (aes_encrypt_block c k b) = 16"
  shows "\<exists>ct. ecb_encrypt c k data = Inr ct \<and> ecb_decrypt c k ct = Inr data"
proof -
  let ?ct = "concat (map (aes_encrypt_block c k) (blocks data))"
  have enc: "ecb_encrypt c k data = Inr ?ct"
    using key len by (simp add: ecb_encrypt_def)
  have l16: "\<And>b. b \<in> set (map (aes_encrypt_block c k) (blocks data)) \<Longrightarrow> length b = 16"
    using blocks_length [OF len] keep by auto
  have bl: "blocks ?ct = map (aes_encrypt_block c k) (blocks data)"
    by (rule blocks_concat) (rule l16)
  have "map (aes_decrypt_block c k) (map (aes_encrypt_block c k) (blocks data)) = blocks data"
    using blocks_length [OF len] inv by (simp add: map_idI)
  moreover have "length ?ct mod 16 = 0"
    by (rule length_concat_16) (rule l16)
  ultimately have "ecb_decrypt c k ?ct = Inr data"
    using key by (simp add: ecb_decrypt_def bl concat_blocks)
  with enc show ?thesis by blast
qed

lemma pkcs7_roundtrip: "pkcs7_unpad (pkcs7_pad x) = Inr x"
proof -
  define n where "n = 16 - length x mod 16"
  have n: "0 < n" "n \<le> 16" unfolding n_def by simp_all
  have pad: "pkcs7_pad x = x @ replicate n (char_of n)"
    by (simp add: pkcs7_pad_def n_def Let_def)
  have m: "(length x + n) mod 16 = 0"
    unfolding n_def by presburger
  have lastc: "last (x @ replicate n (char_of n)) = char_of n"
    using n by (cases n) simp_all
  have oc: "(of_char (char_of n :: char) :: nat) = n"
    using n by simp
  show ?thesis
    using n m by (simp add: pkcs7_unpad_def pad lastc oc Let_def list_all_iff)
qed

lemma length_pkcs7_pad: "length (pkcs7_pad x) mod 16 = 0"
  unfolding pkcs7_pad_def Let_def by simp presburger

lemma decrypt_encrypt_roundtrip:
  assumes "aes_key_ok k"
    and "\<And>b. length b = 16 \<Longrightarrow> aes_decrypt_block c k (aes_encrypt_block c k b) = b"
    and "\<And>b. length b = 16 \<Longrightarrow> length (aes_encrypt_block c k b) = 16"
  shows "\<exists>ct. encrypt_mar c k x = Inr ct \<and> decrypt_mar c k ct = Inr x"
  using ecb_roundtrip [OF assms(1) length_pkcs7_pad assms(2,3), of x]
  by (auto simp: encrypt_mar_def decrypt_mar_def pkcs7_roundtrip)

lemma decrypt_encrypt_roundtrip_example:
  "\<exists>ct. encrypt_mar (aes example_env) ''0123456789abcdef'' ''model'' = Inr ct
        \<and> decrypt_mar (aes example_env) ''0123456789abcdef'' ct = Inr ''model''"
  by (rule decrypt_encrypt_roundtrip) (simp_all add: aes_key_ok_def example_env_def)

end
